theory Spec2Isabelle
  imports Complex_Main "HOL-Library.AList" "HOL-Library.Multiset"
begin

section \<open>Python values, exceptions and dictionaries\<close>

text \<open>
  The program is Python. Its values are the ones a JSON granule record and a CSV row can
  hold. Strings are HOL strings: a character is a code point below 256, where the
  regular-expression class \<open>\d\<close> is exactly \<open>0..9\<close>. A dictionary is an
  association list in insertion order; \<open>AList.update\<close> is Python's item assignment
  (an existing key keeps its place, a new key goes to the end) and \<open>map_of\<close> is lookup.
  An exception is a value \<open>Inl e\<close> of a sum type.
\<close>

datatype pyerr = KeyError | IndexError | TypeError | AttributeError | ValueError | OSError

datatype pyval =
    PNone
  | PBool bool
  | PInt int
  | PFloat real
  | PStr string
  | PList "pyval list"
  | PDict "(string \<times> pyval) list"

type_synonym pydict = "(string \<times> pyval) list"

text \<open>Truth value of a Python object, as \<open>if v:\<close> tests it.\<close>

fun truthy :: "pyval \<Rightarrow> bool" where
  "truthy PNone = False"
| "truthy (PBool b) = b"
| "truthy (PInt n) = (n \<noteq> 0)"
| "truthy (PFloat x) = (x \<noteq> 0)"
| "truthy (PStr s) = (s \<noteq> [])"
| "truthy (PList xs) = (xs \<noteq> [])"
| "truthy (PDict d) = (d \<noteq> [])"

definition bind_err :: "'e + 'a \<Rightarrow> ('a \<Rightarrow> 'e + 'b) \<Rightarrow> 'e + 'b" where
  "bind_err m f = (case m of Inl e \<Rightarrow> Inl e | Inr x \<Rightarrow> f x)"

text \<open>\<open>d[k] = v\<close>, \<open>k in d\<close>, \<open>d.get(k, default)\<close> and \<open>d.update(other)\<close> on a dictionary.\<close>

definition dict_set :: "'k \<Rightarrow> 'v \<Rightarrow> ('k \<times> 'v) list \<Rightarrow> ('k \<times> 'v) list" where
  "dict_set k v d = AList.update k v d"

definition dict_has :: "('k \<times> 'v) list \<Rightarrow> 'k \<Rightarrow> bool" where
  "dict_has d k = (map_of d k \<noteq> None)"

definition dict_get_default :: "('k \<times> 'v) list \<Rightarrow> 'k \<Rightarrow> 'v \<Rightarrow> 'v" where
  "dict_get_default d k dflt = (case map_of d k of Some v \<Rightarrow> v | None \<Rightarrow> dflt)"

definition dict_update :: "('k \<times> 'v) list \<Rightarrow> ('k \<times> 'v) list \<Rightarrow> ('k \<times> 'v) list" where
  "dict_update d other = fold (\<lambda>(k, v). dict_set k v) other d"

subsection \<open>Strings\<close>

definition starts_with :: "string \<Rightarrow> string \<Rightarrow> bool" where
  "starts_with p s = (take (length p) s = p)"

definition ends_with :: "string \<Rightarrow> string \<Rightarrow> bool" where
  "ends_with suf s = (length suf \<le> length s \<and> drop (length s - length suf) s = suf)"

text \<open>\<open>sub in s\<close> for two strings.\<close>

fun str_contains :: "string \<Rightarrow> string \<Rightarrow> bool" where
  "str_contains sub [] = (sub = [])"
| "str_contains sub (c # cs) = (starts_with sub (c # cs) \<or> str_contains sub cs)"

text \<open>\<open>s.replace(old, new)\<close> for a non-empty \<open>old\<close>: occurrences are replaced from the
  left and do not overlap.\<close>

function str_replace :: "string \<Rightarrow> string \<Rightarrow> string \<Rightarrow> string" where
  "str_replace old new s =
     (if old = [] \<or> s = [] then s
      else if starts_with old s then new @ str_replace old new (drop (length old) s)
      else hd s # str_replace old new (tl s))"
  by pat_completeness auto
termination
  by (relation "measure (\<lambda>(old, new, s). length s)") auto

declare str_replace.simps [simp del]

definition is_digit :: "char \<Rightarrow> bool" where
  "is_digit c = (c \<in> set ''0123456789'')"

definition is_upper :: "char \<Rightarrow> bool" where
  "is_upper c = (c \<in> set ''ABCDEFGHIJKLMNOPQRSTUVWXYZ'')"

subsection \<open>Library functions the repository calls\<close>

text \<open>
  Three functions of the Python library are parameters of the model: the text an f-string
  puts for a value that is not a string, the conversion
  \<open>int(datetime.fromisoformat(s).timestamp() * 1000)\<close> (an exception is \<open>Inl\<close>), and
  \<open>str.lower\<close>.
\<close>

record pylib =
  format_value :: "pyval \<Rightarrow> string"
  fromisoformat_ms :: "string \<Rightarrow> pyerr + int"
  str_lower :: "string \<Rightarrow> string"

definition py_format :: "pylib \<Rightarrow> pyval \<Rightarrow> string" where
  "py_format L v = (case v of PStr s \<Rightarrow> s | _ \<Rightarrow> format_value L v)"

text \<open>\<open>len(v)\<close>, \<open>v[:2]\<close>, \<open>v[i]\<close> and \<open>v in s\<close> for a string \<open>s\<close>. A dictionary of
  this model has string keys, so an integer index is a missing key and a slice is no key.\<close>

definition py_len :: "pyval \<Rightarrow> pyerr + nat" where
  "py_len v = (case v of
      PStr s \<Rightarrow> Inr (length s)
    | PList xs \<Rightarrow> Inr (length xs)
    | PDict d \<Rightarrow> Inr (length d)
    | _ \<Rightarrow> Inl TypeError)"

definition py_take2 :: "pyval \<Rightarrow> pyerr + pyval" where
  "py_take2 v = (case v of
      PStr s \<Rightarrow> Inr (PStr (take 2 s))
    | PList xs \<Rightarrow> Inr (PList (take 2 xs))
    | _ \<Rightarrow> Inl TypeError)"

definition py_index :: "pyval \<Rightarrow> nat \<Rightarrow> pyerr + pyval" where
  "py_index v i = (case v of
      PStr s \<Rightarrow> (if i < length s then Inr (PStr [s ! i]) else Inl IndexError)
    | PList xs \<Rightarrow> (if i < length xs then Inr (xs ! i) else Inl IndexError)
    | PDict d \<Rightarrow> Inl KeyError
    | _ \<Rightarrow> Inl TypeError)"

definition py_in_str :: "pyval \<Rightarrow> string \<Rightarrow> pyerr + bool" where
  "py_in_str v s = (case v of PStr t \<Rightarrow> Inr (str_contains t s) | _ \<Rightarrow> Inl TypeError)"

section \<open>metadata.py: the tile codec\<close>

definition get_epsg_from_mgrs :: "pylib \<Rightarrow> pyval \<Rightarrow> pyerr + pyval" where
  "get_epsg_from_mgrs L mgrs_tile =
     (if \<not> truthy mgrs_tile then Inr (PStr '''')
      else bind_err (py_len mgrs_tile) (\<lambda>n.
        if n < 3 then Inr (PStr '''')
        else bind_err (py_take2 mgrs_tile) (\<lambda>utm_zone.
             bind_err (py_index mgrs_tile 2) (\<lambda>third.
             bind_err (py_in_str third ''NPQRSTUVWX'') (\<lambda>north.
               Inr (PStr ((if north then ''EPSG326'' else ''EPSG327'') @ py_format L utm_zone)))))))"

section \<open>metadata.py: the filename parser\<close>

text \<open>
  The seven regular expressions of \<open>_extract_filename_metadata\<close>, each as a matcher that
  is tried at one position of the string and returns the text of group 1. \<open>re_search\<close>
  tries the positions from the left, as \<open>re.search\<close> does. A greedy \<open>\d+\<close> before an
  underscore takes every digit: any shorter choice is followed by a digit, not by the
  underscore. \<open>$\<close> is the end of the string or the place before a final newline.
\<close>

fun re_search :: "(string \<Rightarrow> 'a option) \<Rightarrow> string \<Rightarrow> 'a option" where
  "re_search m [] = m []"
| "re_search m (c # cs) = (case m (c # cs) of Some g \<Rightarrow> Some g | None \<Rightarrow> re_search m cs)"

definition lit :: "string \<Rightarrow> string \<Rightarrow> string option" where
  "lit p s = (if starts_with p s then Some (drop (length p) s) else None)"

definition class_n :: "(char \<Rightarrow> bool) \<Rightarrow> nat \<Rightarrow> string \<Rightarrow> (string \<times> string) option" where
  "class_n P n s =
     (if n \<le> length s \<and> list_all P (take n s) then Some (take n s, drop n s) else None)"

definition digits1 :: "string \<Rightarrow> (string \<times> string) option" where
  "digits1 s =
     (if takeWhile is_digit s = [] then None
      else Some (takeWhile is_digit s, dropWhile is_digit s))"

definition opt_upper :: "string \<Rightarrow> string \<times> string" where
  "opt_upper s = (case s of c # cs \<Rightarrow> (if is_upper c then ([c], cs) else ([], s)) | [] \<Rightarrow> ([], s))"

text \<open>\<open>T\d{6}_(\d{4}_\d{2})$\<close>\<close>

definition match_processing_id :: "string \<Rightarrow> string option" where
  "match_processing_id s =
     Option.bind (lit ''T'' s) (\<lambda>r1.
     Option.bind (class_n is_digit 6 r1) (\<lambda>(d6, r2).
     Option.bind (lit ''_'' r2) (\<lambda>r3.
     Option.bind (class_n is_digit 4 r3) (\<lambda>(a, r4).
     Option.bind (lit ''_'' r4) (\<lambda>r5.
     Option.bind (class_n is_digit 2 r5) (\<lambda>(b, r6).
       if r6 = [] \<or> r6 = [CHR 0x0A] then Some (a @ ''_'' @ b) else None))))))"

text \<open>\<open>_(\d{2}[A-Z]{3})_\<close>\<close>

definition match_mgrs :: "string \<Rightarrow> string option" where
  "match_mgrs s =
     Option.bind (lit ''_'' s) (\<lambda>r1.
     Option.bind (class_n is_digit 2 r1) (\<lambda>(zone, r2).
     Option.bind (class_n is_upper 3 r2) (\<lambda>(letters, r3).
     Option.bind (lit ''_'' r3) (\<lambda>r4. Some (zone @ letters)))))"

text \<open>\<open>_LSTE_(\d+)_\<close>\<close>

definition match_orbit :: "string \<Rightarrow> string option" where
  "match_orbit s =
     Option.bind (lit ''_LSTE_'' s) (\<lambda>r1.
     Option.bind (digits1 r1) (\<lambda>(orbit, r2).
     Option.bind (lit ''_'' r2) (\<lambda>r3. Some orbit)))"

text \<open>\<open>ECOv(\d+)_\<close>\<close>

definition match_version :: "string \<Rightarrow> string option" where
  "match_version s =
     Option.bind (lit ''ECOv'' s) (\<lambda>r1.
     Option.bind (digits1 r1) (\<lambda>(version, r2).
     Option.bind (lit ''_'' r2) (\<lambda>r3. Some version)))"

text \<open>\<open>ECOv\d+_(L\d[A-Z]?)_\<close>\<close>

definition match_level :: "string \<Rightarrow> string option" where
  "match_level s =
     Option.bind (lit ''ECOv'' s) (\<lambda>r1.
     Option.bind (digits1 r1) (\<lambda>(version, r2).
     Option.bind (lit ''_L'' r2) (\<lambda>r3.
     Option.bind (class_n is_digit 1 r3) (\<lambda>(d, r4).
       case opt_upper r4 of (u, r5) \<Rightarrow>
         Option.bind (lit ''_'' r5) (\<lambda>r6. Some (''L'' @ d @ u))))))"

text \<open>\<open>_LSTE_\d+_(\d{3})_\<close>\<close>

definition match_scene :: "string \<Rightarrow> string option" where
  "match_scene s =
     Option.bind (lit ''_LSTE_'' s) (\<lambda>r1.
     Option.bind (digits1 r1) (\<lambda>(orbit, r2).
     Option.bind (lit ''_'' r2) (\<lambda>r3.
     Option.bind (class_n is_digit 3 r3) (\<lambda>(scene, r4).
     Option.bind (lit ''_'' r4) (\<lambda>r5. Some scene)))))"

text \<open>\<open>_LSTE_(\d+_\d{3})_\<close>\<close>

definition match_orbit_scene :: "string \<Rightarrow> string option" where
  "match_orbit_scene s =
     Option.bind (lit ''_LSTE_'' s) (\<lambda>r1.
     Option.bind (digits1 r1) (\<lambda>(orbit, r2).
     Option.bind (lit ''_'' r2) (\<lambda>r3.
     Option.bind (class_n is_digit 3 r3) (\<lambda>(scene, r4).
     Option.bind (lit ''_'' r4) (\<lambda>r5. Some (orbit @ ''_'' @ scene))))))"

text \<open>\<open>int(s)\<close> for a string of the digits \<open>0..9\<close>.\<close>

definition digit_value :: "char \<Rightarrow> int" where
  "digit_value c = int (of_char c) - 48"

definition int_of_digits :: "string \<Rightarrow> int" where
  "int_of_digits s = foldl (\<lambda>n c. 10 * n + digit_value c) 0 s"

text \<open>The parser itself: seven searches, each filling its own key when it matches.\<close>

definition store_match :: "string \<Rightarrow> pyval option \<Rightarrow> pydict \<Rightarrow> pydict" where
  "store_match key m metadata = (case m of Some v \<Rightarrow> dict_set key v metadata | None \<Rightarrow> metadata)"

definition extract_filename_metadata :: "string \<Rightarrow> pydict" where
  "extract_filename_metadata granule_ur =
     (let metadata = [];
          metadata = store_match ''processing_ID''
            (map_option PStr (re_search match_processing_id granule_ur)) metadata;
          metadata = store_match ''mgrs_tile''
            (map_option PStr (re_search match_mgrs granule_ur)) metadata;
          metadata = store_match ''orbit_number_from_filename''
            (map_option PStr (re_search match_orbit granule_ur)) metadata;
          metadata = store_match ''version_from_filename''
            (map_option PStr (re_search match_version granule_ur)) metadata;
          metadata = store_match ''processing_level''
            (map_option PStr (re_search match_level granule_ur)) metadata;
          metadata = store_match ''scene''
            (map_option (\<lambda>g. PInt (int_of_digits g)) (re_search match_scene granule_ur)) metadata;
          metadata = store_match ''orbit_scene''
            (map_option PStr (re_search match_orbit_scene granule_ur)) metadata
      in metadata)"

text \<open>
  The same seven extractions as a table of key and search, and the parser that runs a
  table in the order given: \<open>extract_filename_metadata\<close> runs \<open>filename_extractions\<close>
  (lemma \<open>extract_filename_metadata_table\<close>), and a statement about the order of
  the extractions is a statement about a permutation of the table.
\<close>

definition filename_extractions :: "(string \<times> (string \<Rightarrow> pyval option)) list" where
  "filename_extractions =
     [(''processing_ID'', \<lambda>ur. map_option PStr (re_search match_processing_id ur)),
      (''mgrs_tile'', \<lambda>ur. map_option PStr (re_search match_mgrs ur)),
      (''orbit_number_from_filename'', \<lambda>ur. map_option PStr (re_search match_orbit ur)),
      (''version_from_filename'', \<lambda>ur. map_option PStr (re_search match_version ur)),
      (''processing_level'', \<lambda>ur. map_option PStr (re_search match_level ur)),
      (''scene'', \<lambda>ur. map_option (\<lambda>g. PInt (int_of_digits g)) (re_search match_scene ur)),
      (''orbit_scene'', \<lambda>ur. map_option PStr (re_search match_orbit_scene ur))]"

definition run_extractions ::
  "(string \<times> (string \<Rightarrow> pyval option)) list \<Rightarrow> string \<Rightarrow> pydict \<Rightarrow> pydict" where
  "run_extractions table ur metadata = fold (\<lambda>(key, f). store_match key (f ur)) table metadata"

section \<open>metadata.py: the granule record extractor\<close>

text \<open>
  Operations on a value whose type the code does not check: \<open>v.get(key, default)\<close>
  (only a dictionary has \<open>get\<close>), \<open>key in v\<close>, \<open>v[key]\<close> for a string key, iteration,
  \<open>v.lower()\<close>, \<open>v.replace(old, new)\<close> and \<open>sep.join(v)\<close>.
\<close>

definition py_get :: "pyval \<Rightarrow> string \<Rightarrow> pyval \<Rightarrow> pyerr + pyval" where
  "py_get v key dflt =
     (case v of PDict d \<Rightarrow> Inr (dict_get_default d key dflt) | _ \<Rightarrow> Inl AttributeError)"

definition py_contains :: "string \<Rightarrow> pyval \<Rightarrow> pyerr + bool" where
  "py_contains key v = (case v of
      PDict d \<Rightarrow> Inr (dict_has d key)
    | PStr s \<Rightarrow> Inr (str_contains key s)
    | PList xs \<Rightarrow> Inr (List.member xs (PStr key))
    | _ \<Rightarrow> Inl TypeError)"

definition py_getitem :: "pyval \<Rightarrow> string \<Rightarrow> pyerr + pyval" where
  "py_getitem v key = (case v of
      PDict d \<Rightarrow> (case map_of d key of Some x \<Rightarrow> Inr x | None \<Rightarrow> Inl KeyError)
    | _ \<Rightarrow> Inl TypeError)"

definition py_iter :: "pyval \<Rightarrow> pyerr + pyval list" where
  "py_iter v = (case v of
      PList xs \<Rightarrow> Inr xs
    | PStr s \<Rightarrow> Inr (map (\<lambda>c. PStr [c]) s)
    | PDict d \<Rightarrow> Inr (map (\<lambda>(k, x). PStr k) d)
    | _ \<Rightarrow> Inl TypeError)"

definition py_lower :: "pylib \<Rightarrow> pyval \<Rightarrow> pyerr + string" where
  "py_lower L v = (case v of PStr s \<Rightarrow> Inr (str_lower L s) | _ \<Rightarrow> Inl AttributeError)"

definition py_replace :: "pyval \<Rightarrow> string \<Rightarrow> string \<Rightarrow> pyerr + string" where
  "py_replace v old new =
     (case v of PStr s \<Rightarrow> Inr (str_replace old new s) | _ \<Rightarrow> Inl AttributeError)"

fun join_strs :: "string \<Rightarrow> string list \<Rightarrow> string" where
  "join_strs sep [] = []"
| "join_strs sep [x] = x"
| "join_strs sep (x # y # ys) = x @ sep @ join_strs sep (y # ys)"

fun the_strs :: "pyval list \<Rightarrow> pyerr + string list" where
  "the_strs [] = Inr []"
| "the_strs (PStr s # vs) = bind_err (the_strs vs) (\<lambda>ss. Inr (s # ss))"
| "the_strs (v # vs) = Inl TypeError"

definition py_join :: "string \<Rightarrow> pyval \<Rightarrow> pyerr + pyval" where
  "py_join sep v =
     bind_err (py_iter v) (\<lambda>items.
     bind_err (the_strs items) (\<lambda>ss. Inr (PStr (join_strs sep ss))))"

definition dict_lookup :: "pydict \<Rightarrow> string \<Rightarrow> pyerr + pyval" where
  "dict_lookup d key = (case map_of d key of Some v \<Rightarrow> Inr v | None \<Rightarrow> Inl KeyError)"

text \<open>
  The statements of \<open>extract_granule_metadata\<close> are steps on the metadata dictionary:
  \<open>metadata[key] = rhs\<close> and \<open>metadata.update(rhs)\<close>, where evaluating \<open>rhs\<close> may raise.
  \<open>seq_err\<close> runs steps in order and stops at the first exception.
\<close>

definition assign :: "string \<Rightarrow> pyerr + pyval \<Rightarrow> pydict \<Rightarrow> pyerr + pydict" where
  "assign key rhs metadata = bind_err rhs (\<lambda>v. Inr (dict_set key v metadata))"

definition update_with :: "pyerr + pydict \<Rightarrow> pydict \<Rightarrow> pyerr + pydict" where
  "update_with rhs metadata = bind_err rhs (\<lambda>other. Inr (dict_update metadata other))"

fun seq_err :: "('s \<Rightarrow> 'e + 's) list \<Rightarrow> 's \<Rightarrow> 'e + 's" where
  "seq_err [] s = Inr s"
| "seq_err (step # steps) s = bind_err (step s) (seq_err steps)"

text \<open>\<open>_extract_filename_metadata\<close> on a value: \<open>re.search\<close> needs a string.\<close>

definition py_extract_filename_metadata :: "pyval \<Rightarrow> pyerr + pydict" where
  "py_extract_filename_metadata granule_ur =
     (case granule_ur of PStr s \<Rightarrow> Inr (extract_filename_metadata s) | _ \<Rightarrow> Inl TypeError)"

text \<open>\<open>_convert_to_timestamp\<close>: the body of the \<open>try\<close>, and the handler that returns the
  empty string for any exception.\<close>

definition convert_to_timestamp :: "pylib \<Rightarrow> pyval \<Rightarrow> pyval" where
  "convert_to_timestamp L datetime_str =
     (case bind_err (py_replace datetime_str ''Z'' ''+00:00'') (fromisoformat_ms L) of
        Inr ms \<Rightarrow> PInt ms
      | Inl e \<Rightarrow> PStr [])"

definition extract_spatial_metadata :: "pyval \<Rightarrow> pyerr + pydict" where
  "extract_spatial_metadata umm =
     bind_err (py_get umm ''SpatialExtent'' (PDict [])) (\<lambda>extent.
     bind_err (py_get extent ''HorizontalSpatialDomain'' (PDict [])) (\<lambda>domain.
     bind_err (py_get domain ''Geometry'' (PDict [])) (\<lambda>spatial_extent.
     bind_err (py_contains ''BoundingRectangles'' spatial_extent) (\<lambda>present.
     bind_err (if present
               then bind_err (py_get spatial_extent ''BoundingRectangles'' (PList [PDict []]))
                      (\<lambda>rects. py_index rects 0)
               else Inr (PDict [])) (\<lambda>bounding_rect.
     bind_err (py_get bounding_rect ''NorthBoundingCoordinate'' (PStr [])) (\<lambda>north.
     bind_err (py_get bounding_rect ''SouthBoundingCoordinate'' (PStr [])) (\<lambda>south.
     bind_err (py_get bounding_rect ''EastBoundingCoordinate'' (PStr [])) (\<lambda>east.
     bind_err (py_get bounding_rect ''WestBoundingCoordinate'' (PStr [])) (\<lambda>west.
       Inr [(''north_lat'', north), (''south_lat'', south),
            (''east_lon'', east), (''west_lon'', west)])))))))))"

fun provider_dates_loop :: "pylib \<Rightarrow> pyval list \<Rightarrow> pydict \<Rightarrow> pyerr + pydict" where
  "provider_dates_loop L [] metadata = Inr metadata"
| "provider_dates_loop L (pdate # rest) metadata =
     bind_err (py_get pdate ''Type'' (PStr [])) (\<lambda>date_type.
       if truthy date_type
       then bind_err (py_get pdate ''Date'' (PStr [])) (\<lambda>date.
            bind_err (py_lower L date_type) (\<lambda>lowered.
              provider_dates_loop L rest (dict_set (''provider_date_'' @ lowered) date metadata)))
       else provider_dates_loop L rest metadata)"

definition extract_provider_dates :: "pylib \<Rightarrow> pyval \<Rightarrow> pyerr + pydict" where
  "extract_provider_dates L umm =
     bind_err (py_get umm ''ProviderDates'' (PList [])) (\<lambda>provider_dates.
     bind_err (py_iter provider_dates) (\<lambda>items. provider_dates_loop L items []))"

definition extract_platform_metadata :: "pyval \<Rightarrow> pyerr + pydict" where
  "extract_platform_metadata umm =
     (let metadata = [(''platform_short_name'', PStr []), (''sensor'', PStr [])] in
      bind_err (py_get umm ''Platforms'' (PList [])) (\<lambda>platforms.
        if truthy platforms
        then bind_err (py_index platforms 0) (\<lambda>platform.
             bind_err (py_get platform ''ShortName'' (PStr ''ISS'')) (\<lambda>name.
             let metadata = dict_set ''platform_short_name'' name metadata in
             bind_err (py_get platform ''Instruments'' (PList [])) (\<lambda>instruments.
               if truthy instruments
               then bind_err (py_index instruments 0) (\<lambda>instrument.
                    bind_err (py_get instrument ''ShortName'' (PStr ''ECOSTRESS'')) (\<lambda>sensor.
                      Inr (dict_set ''sensor'' sensor metadata)))
               else Inr metadata)))
        else Inr metadata))"

definition nonempty_list :: "pyval \<Rightarrow> bool" where
  "nonempty_list v = (case v of PList xs \<Rightarrow> xs \<noteq> [] | _ \<Rightarrow> False)"

definition extract_orbit_metadata :: "pyval \<Rightarrow> pyerr + pydict" where
  "extract_orbit_metadata umm =
     (let metadata = [(''orbit_number'', PStr []), (''begin_orbit_number'', PStr []),
                      (''end_orbit_number'', PStr [])] in
      bind_err (py_contains ''OrbitCalculatedSpatialDomains'' umm) (\<lambda>has_domains.
      bind_err
        (if has_domains
         then bind_err (py_get umm ''OrbitCalculatedSpatialDomains'' (PList [])) (\<lambda>orbits.
              if nonempty_list orbits
              then bind_err (py_index orbits 0) (\<lambda>first.
                   bind_err (py_contains ''BeginOrbitNumber'' first) (\<lambda>has_begin.
                     if has_begin
                     then bind_err (py_get first ''BeginOrbitNumber'' (PStr [])) (\<lambda>begin.
                          bind_err (py_get first ''EndOrbitNumber'' (PStr [])) (\<lambda>end_orbit.
                          bind_err (py_get first ''BeginOrbitNumber'' (PStr [])) (\<lambda>orbit.
                            Inr (dict_set ''orbit_number'' orbit
                                  (dict_set ''end_orbit_number'' end_orbit
                                    (dict_set ''begin_orbit_number'' begin metadata))))))
                     else Inr metadata))
              else Inr metadata)
         else Inr metadata) (\<lambda>metadata.
      bind_err (py_contains ''OrbitParameters'' umm) (\<lambda>has_parameters.
      bind_err (if has_parameters
                then bind_err (dict_lookup metadata ''orbit_number'') (\<lambda>v. Inr (\<not> truthy v))
                else Inr False) (\<lambda>consult.
        if consult
        then bind_err (py_get umm ''OrbitParameters'' (PList [])) (\<lambda>orbits.
             if nonempty_list orbits
             then bind_err (py_index orbits 0) (\<lambda>first.
                  bind_err (py_contains ''OrbitNumber'' first) (\<lambda>has_number.
                    if has_number
                    then bind_err (py_get first ''OrbitNumber'' (PStr [])) (\<lambda>orbit.
                           Inr (dict_set ''orbit_number'' orbit metadata))
                    else Inr metadata))
             else Inr metadata)
        else Inr metadata)))))"

fun parameter_names_loop :: "pyval list \<Rightarrow> pyerr + pyval list" where
  "parameter_names_loop [] = Inr []"
| "parameter_names_loop (param # rest) =
     bind_err (py_contains ''ParameterName'' param) (\<lambda>present.
       if present
       then bind_err (py_getitem param ''ParameterName'') (\<lambda>name.
            bind_err (parameter_names_loop rest) (\<lambda>names. Inr (name # names)))
       else parameter_names_loop rest)"

definition extract_parameter_names :: "pyval \<Rightarrow> pyerr + pyval" where
  "extract_parameter_names umm =
     bind_err (py_get umm ''MeasuredParameters'' (PList [])) (\<lambda>measured_params.
       if truthy measured_params
       then bind_err (py_iter measured_params) (\<lambda>items.
            bind_err (parameter_names_loop items) (\<lambda>param_names.
              py_join '', '' (PList param_names)))
       else Inr (PStr []))"

fun additional_attributes_loop :: "pylib \<Rightarrow> pyval list \<Rightarrow> pydict \<Rightarrow> pyerr + pydict" where
  "additional_attributes_loop L [] metadata = Inr metadata"
| "additional_attributes_loop L (attr # rest) metadata =
     bind_err (py_get attr ''Name'' (PStr [])) (\<lambda>attr_name.
     bind_err (if truthy attr_name
               then bind_err (py_contains ''Values'' attr) (\<lambda>present.
                      if present
                      then bind_err (py_getitem attr ''Values'') (\<lambda>vs. Inr (truthy vs))
                      else Inr False)
               else Inr False) (\<lambda>wanted.
       if wanted
       then bind_err (py_lower L attr_name) (\<lambda>lowered.
            let safe_name = str_replace ''-'' ''_'' lowered in
            bind_err (py_getitem attr ''Values'') (\<lambda>vs.
            bind_err (py_join '', '' vs) (\<lambda>joined.
              additional_attributes_loop L rest
                (dict_set (''attr_'' @ safe_name) joined metadata))))
       else additional_attributes_loop L rest metadata))"

definition extract_additional_attributes :: "pylib \<Rightarrow> pyval \<Rightarrow> pyerr + pydict" where
  "extract_additional_attributes L umm =
     bind_err (py_get umm ''AdditionalAttributes'' (PList [])) (\<lambda>add_attrs.
     bind_err (py_iter add_attrs) (\<lambda>items. additional_attributes_loop L items []))"

text \<open>
  A granule is the dictionary it holds and the result of its \<open>size()\<close> method, which
  belongs to the library that supplies granules. \<open>sub2 v k1 k2\<close> is
  \<open>v.get(k1, {}).get(k2, "")\<close>.
\<close>

record granule =
  gdict :: pydict
  gsize :: "pyerr + pyval"

definition sub2 :: "pyval \<Rightarrow> string \<Rightarrow> string \<Rightarrow> pyerr + pyval" where
  "sub2 v k1 k2 = bind_err (py_get v k1 (PDict [])) (\<lambda>inner. py_get inner k2 (PStr []))"

definition granule_umm :: "granule \<Rightarrow> pyval" where
  "granule_umm g = dict_get_default (gdict g) ''umm'' (PDict [])"

definition granule_ur_of :: "granule \<Rightarrow> pyerr + pyval" where
  "granule_ur_of g = py_get (granule_umm g) ''GranuleUR'' (PStr [])"

definition beginning_datetime_of :: "granule \<Rightarrow> pyerr + pyval" where
  "beginning_datetime_of g =
     bind_err (bind_err (py_get (granule_umm g) ''TemporalExtent'' (PDict []))
                 (\<lambda>t. py_get t ''RangeDateTime'' (PDict [])))
       (\<lambda>t. py_get t ''BeginningDateTime'' (PStr []))"

definition time_start_step :: "pylib \<Rightarrow> granule \<Rightarrow> pydict \<Rightarrow> pyerr + pydict" where
  "time_start_step L g metadata =
     bind_err (beginning_datetime_of g) (\<lambda>beginning_datetime.
       if truthy beginning_datetime
       then assign ''time_start'' (Inr (convert_to_timestamp L beginning_datetime)) metadata
       else Inr metadata)"

definition filename_step :: "granule \<Rightarrow> pydict \<Rightarrow> pyerr + pydict" where
  "filename_step g metadata =
     bind_err (granule_ur_of g) (\<lambda>granule_ur.
       if truthy granule_ur
       then update_with (py_extract_filename_metadata granule_ur) metadata
       else Inr metadata)"

definition steps_before_filename :: "granule \<Rightarrow> (pydict \<Rightarrow> pyerr + pydict) list" where
  "steps_before_filename g =
     (let meta = dict_get_default (gdict g) ''meta'' (PDict []) in
      [assign ''concept_type'' (py_get meta ''concept-type'' (PStr [])),
       assign ''concept_id'' (py_get meta ''concept-id'' (PStr [])),
       assign ''revision_id'' (py_get meta ''revision-id'' (PStr [])),
       assign ''native_id'' (py_get meta ''native-id'' (PStr [])),
       assign ''collection_concept_id'' (py_get meta ''collection-concept-id'' (PStr [])),
       assign ''provider_id'' (py_get meta ''provider-id'' (PStr [])),
       assign ''format'' (py_get meta ''format'' (PStr [])),
       assign ''revision_date'' (py_get meta ''revision-date'' (PStr [])),
       assign ''granule_ur'' (granule_ur_of g),
       assign ''processing_ID'' (Inr (PStr [])),
       assign ''mgrs_tile'' (Inr (PStr [])),
       assign ''orbit_number_from_filename'' (Inr (PStr [])),
       assign ''version_from_filename'' (Inr (PStr [])),
       assign ''processing_level'' (Inr (PStr []))])"

definition steps_before_time :: "granule \<Rightarrow> (pydict \<Rightarrow> pyerr + pydict) list" where
  "steps_before_time g =
     (let umm = granule_umm g in
      [assign ''short_name'' (sub2 umm ''CollectionReference'' ''ShortName''),
       assign ''version'' (sub2 umm ''CollectionReference'' ''Version''),
       assign ''pge_version'' (sub2 umm ''PGEVersionClass'' ''PGEVersion''),
       assign ''beginning_date_time'' (beginning_datetime_of g),
       assign ''ending_date_time''
         (bind_err (bind_err (py_get umm ''TemporalExtent'' (PDict []))
                      (\<lambda>t. py_get t ''RangeDateTime'' (PDict [])))
            (\<lambda>t. py_get t ''EndingDateTime'' (PStr [])))])"

definition steps_after_time :: "pylib \<Rightarrow> granule \<Rightarrow> (pydict \<Rightarrow> pyerr + pydict) list" where
  "steps_after_time L g =
     (let umm = granule_umm g in
      [update_with (extract_spatial_metadata umm),
       update_with (extract_provider_dates L umm),
       assign ''day_night_flag'' (sub2 umm ''DataGranule'' ''DayNightFlag''),
       assign ''production_date_time'' (sub2 umm ''DataGranule'' ''ProductionDateTime''),
       update_with (extract_platform_metadata umm),
       assign ''size_mb'' (gsize g),
       update_with (extract_orbit_metadata umm),
       assign ''parameter_names'' (extract_parameter_names umm),
       update_with (extract_additional_attributes L umm)])"

text \<open>
  \<open>extract_granule_metadata\<close>, statement by statement: the identifiers and the defaults of
  the filename-derived fields, the filename parser when the granule UR is true, the
  collection, version and temporal fields, \<open>time_start\<close> when \<open>BeginningDateTime\<close> is true,
  and the spatial, provider, quality, platform, size, orbit, parameter and attribute
  fields.
\<close>

definition extract_granule_metadata :: "pylib \<Rightarrow> granule \<Rightarrow> pyerr + pydict" where
  "extract_granule_metadata L g =
     seq_err
       (steps_before_filename g @ [filename_step g] @ steps_before_time g @
        [time_start_step L g] @ steps_after_time L g)
       []"

text \<open>
  A step leaves a key alone when it keeps that key's entry and when dropping the key
  before the step is the same as dropping it after.
\<close>

definition dict_del :: "string \<Rightarrow> pydict \<Rightarrow> pydict" where
  "dict_del k d = AList.delete k d"

definition untouched :: "string \<Rightarrow> (pydict \<Rightarrow> pyerr + pydict) \<Rightarrow> bool" where
  "untouched k st =
     (\<forall>md. (case st md of Inl e \<Rightarrow> st (dict_del k md) = Inl e
            | Inr md' \<Rightarrow> map_of md' k = map_of md k
                        \<and> st (dict_del k md) = Inr (dict_del k md')))"

text \<open>
  A library for the examples: it converts the one timestamp of the specification's example
  and rejects any other text, as \<open>fromisoformat\<close> rejects \<open>not-a-date\<close>.
\<close>

definition example_lib :: pylib where
  "example_lib =
     \<lparr>format_value = (\<lambda>v. []),
      fromisoformat_ms =
        (\<lambda>s. if s = ''2025-01-01T12:00:00+00:00'' then Inr 1735732800000 else Inl ValueError),
      str_lower = (\<lambda>s. s)\<rparr>"

definition stars_granule :: granule where
  "stars_granule =
     \<lparr>gdict = [(''umm'', PDict [(''GranuleUR'',
                  PStr ''ECOv002_L2T_STARS_11SPS_20230101_0712_01'')])],
      gsize = Inr (PInt 0)\<rparr>"

definition undated_granule :: granule where
  "undated_granule =
     \<lparr>gdict = [(''umm'', PDict
                 [(''GranuleUR'',
                   PStr ''ECOv002_L2T_LSTE_00048_003_18TUN_20250101T120000_0712_01''),
                  (''TemporalExtent'', PDict [(''RangeDateTime'',
                     PDict [(''BeginningDateTime'', PStr ''not-a-date'')])])])],
      gsize = Inr (PInt 0)\<rparr>"

section \<open>csv_handler.py: the metadata table reconciler\<close>

text \<open>
  A row is the dictionary \<open>csv.DictReader\<close> yields: its keys are the column names and,
  for a record longer than the header, the key \<open>None\<close> that holds the surplus fields. A
  download record is the tuple the download stage appends for each file.
\<close>

datatype pykey = KNone | KStr string

type_synonym row = "(pykey \<times> pyval) list"

record download_record =
  filename :: string
  folder_path :: string
  file_type :: string
  granule_metadata :: pydict

text \<open>
  The operating system and the \<open>csv\<close> library, as far as \<open>enhance_metadata_csv\<close> sees
  them: whether a path exists, what \<open>os.listdir\<close> returns, what
  \<open>list(csv.DictReader(file))\<close> returns for a path (or the exception of \<open>open\<close> or of
  the reader), and the input or output exception, if any, that opening the file for
  writing or writing to it raises.
\<close>

record env =
  path_exists :: "string \<Rightarrow> bool"
  listdir :: "string \<Rightarrow> pyerr + string list"
  read_rows :: "string \<Rightarrow> pyerr + row list"
  write_fault :: "string \<Rightarrow> pyerr option"

text \<open>
  What the call left in the file: nothing touched; opened for writing (truncated) and not
  written completely; or the header and the records that \<open>DictWriter\<close> wrote.
\<close>

datatype disk = Untouched | Partial | Written "pykey list" "pyval list list"

text \<open>Loops that stop at the first exception: over the elements of a list that is
  rebuilt, and over a list with a state.\<close>

fun map_err :: "('a \<Rightarrow> 'e + 'b) \<Rightarrow> 'a list \<Rightarrow> 'e + 'b list" where
  "map_err f [] = Inr []"
| "map_err f (x # xs) =
     bind_err (f x) (\<lambda>y. bind_err (map_err f xs) (\<lambda>ys. Inr (y # ys)))"

fun fold_err :: "('a \<Rightarrow> 's \<Rightarrow> 'e + 's) \<Rightarrow> 'a list \<Rightarrow> 's \<Rightarrow> 'e + 's" where
  "fold_err f [] s = Inr s"
| "fold_err f (x # xs) s = bind_err (f x s) (fold_err f xs)"

definition field_list :: "string list" where
  "field_list =
     [''system:time_start'', ''system:time_end'', ''EPSG'', ''band_type'',
      ''attr_identifier_product_doi'', ''attr_identifier_product_doi_authority'',
      ''begin_orbit_number'', ''beginning_date_time'', ''collection_concept_id'',
      ''concept_id'', ''concept_type'', ''day_night_flag'', ''east_lon'',
      ''end_orbit_number'', ''ending_date_time'', ''format'', ''granule_ur'',
      ''mgrs_tile'', ''native_id'', ''north_lat'', ''orbit_number'',
      ''orbit_number_from_filename'', ''parameter_names'', ''pge_version'',
      ''platform_short_name'', ''processing_ID'', ''processing_level'',
      ''production_date_time'', ''provider_date_insert'', ''provider_date_update'',
      ''provider_id'', ''revision_date'', ''revision_id'', ''sensor'', ''short_name'',
      ''size_mb'', ''south_lat'', ''time_start'', ''version'', ''version_from_filename'',
      ''west_lon'', ''scene'', ''orbit_scene'']"

definition initialize_metadata_fields :: "row list \<Rightarrow> row list" where
  "initialize_metadata_fields rows =
     map (\<lambda>row. fold (\<lambda>field r. dict_set (KStr field) (PStr []) r) field_list row) rows"

text \<open>\<open>row['id_no'] in filename\<close>: a missing column is a \<open>KeyError\<close>, a value that is not
  a string a \<open>TypeError\<close>.\<close>

definition row_matches :: "row \<Rightarrow> string \<Rightarrow> pyerr + bool" where
  "row_matches row name =
     (case map_of row (KStr ''id_no'') of
        None \<Rightarrow> Inl KeyError
      | Some (PStr s) \<Rightarrow> Inr (str_contains s name)
      | Some _ \<Rightarrow> Inl TypeError)"

text \<open>
  \<open>_update_row_with_metadata\<close> in its four parts. The first is the system time fields:
  the \<open>elif\<close> branch parses the date strings inside a \<open>try\<close> whose handler only logs, so
  an exception leaves the row as the assignments made before it.
\<close>

definition time_from_dates :: "pylib \<Rightarrow> row \<Rightarrow> pydict \<Rightarrow> row" where
  "time_from_dates L row md =
     (case map_of md ''beginning_date_time'' of
        None \<Rightarrow> row
      | Some beginning \<Rightarrow>
          if \<not> truthy beginning then row
          else (case bind_err (py_replace beginning ''Z'' ''+00:00'') (fromisoformat_ms L) of
              Inl e \<Rightarrow> row
            | Inr begin_ms \<Rightarrow>
                (let row1 = dict_set (KStr ''system:time_start'') (PInt begin_ms) row;
                     copy_start = dict_set (KStr ''system:time_end'') (PInt begin_ms) row1
                 in case map_of md ''ending_date_time'' of
                      None \<Rightarrow> copy_start
                    | Some ending \<Rightarrow>
                        if \<not> truthy ending then copy_start
                        else (case bind_err (py_replace ending ''Z'' ''+00:00'')
                                     (fromisoformat_ms L) of
                            Inl e \<Rightarrow> row1
                          | Inr end_ms \<Rightarrow>
                              dict_set (KStr ''system:time_end'') (PInt end_ms) row1))))"

definition set_system_time :: "pylib \<Rightarrow> row \<Rightarrow> pydict \<Rightarrow> row" where
  "set_system_time L row md =
     (case map_of md ''time_start'' of
        None \<Rightarrow> time_from_dates L row md
      | Some time_start \<Rightarrow>
          if truthy time_start
          then dict_set (KStr ''system:time_end'') time_start
                 (dict_set (KStr ''system:time_start'') time_start row)
          else time_from_dates L row md)"

definition set_epsg :: "pylib \<Rightarrow> row \<Rightarrow> pydict \<Rightarrow> pyerr + row" where
  "set_epsg L row md =
     (case map_of md ''mgrs_tile'' of
        None \<Rightarrow> Inr row
      | Some tile \<Rightarrow>
          if \<not> truthy tile then Inr row
          else bind_err (get_epsg_from_mgrs L tile) (\<lambda>epsg.
                 if truthy epsg then Inr (dict_set (KStr ''EPSG'') epsg row) else Inr row))"

definition transfer_metadata :: "row \<Rightarrow> pydict \<Rightarrow> row" where
  "transfer_metadata row md =
     fold (\<lambda>(key, v) r.
             if v \<noteq> PNone \<and> dict_has r (KStr key) then dict_set (KStr key) v r else r)
       md row"

definition update_row_with_metadata :: "pylib \<Rightarrow> row \<Rightarrow> pydict \<Rightarrow> string \<Rightarrow> pyerr + row" where
  "update_row_with_metadata L row md ftype =
     (let row = set_system_time L row md;
          row = dict_set (KStr ''band_type'') (PStr ftype) row
      in bind_err (set_epsg L row md) (\<lambda>row. Inr (transfer_metadata row md)))"

definition update_matching_rows :: "pylib \<Rightarrow> download_record \<Rightarrow> row list \<Rightarrow> pyerr + row list" where
  "update_matching_rows L rec rows =
     map_err (\<lambda>row. bind_err (row_matches row (filename rec)) (\<lambda>hit.
                if hit then update_row_with_metadata L row (granule_metadata rec) (file_type rec)
                else Inr row))
       rows"

definition populate_from_downloaded_files ::
  "pylib \<Rightarrow> row list \<Rightarrow> download_record list \<Rightarrow> pyerr + row list" where
  "populate_from_downloaded_files L rows downloaded_files =
     fold_err (update_matching_rows L) downloaded_files rows"

definition folder_row_update :: "pylib \<Rightarrow> string \<Rightarrow> string \<Rightarrow> row \<Rightarrow> pyerr + row" where
  "folder_row_update L folder_type name row =
     bind_err (row_matches row name) (\<lambda>hit.
       if \<not> hit then Inr row
       else (let row = dict_set (KStr ''band_type'')
                         (PStr (str_replace ''.tif'' [] folder_type)) row
             in case re_search match_mgrs name of
                  None \<Rightarrow> Inr row
                | Some mgrs_tile \<Rightarrow>
                    (let row = dict_set (KStr ''mgrs_tile'') (PStr mgrs_tile) row
                     in bind_err (get_epsg_from_mgrs L (PStr mgrs_tile)) (\<lambda>epsg.
                          if truthy epsg then Inr (dict_set (KStr ''EPSG'') epsg row)
                          else Inr row))))"

definition populate_from_folders ::
  "pylib \<Rightarrow> env \<Rightarrow> row list \<Rightarrow> (string \<times> string) list \<Rightarrow> pyerr + row list" where
  "populate_from_folders L E rows download_folders =
     fold_err (\<lambda>(folder_type, path) rows.
         if path_exists E path
         then bind_err (listdir E path) (\<lambda>names.
                fold_err (\<lambda>name rows.
                    if ends_with ''.tif'' name
                    then map_err (folder_row_update L folder_type name) rows
                    else Inr rows)
                  names rows)
         else Inr rows)
       download_folders rows"

text \<open>
  The \<open>with open(..., 'w')\<close> block: the header is the keys of the first row (an
  \<open>IndexError\<close> when there is none), and \<open>DictWriter\<close> raises \<open>ValueError\<close> for a row with
  a key outside the header and writes the empty string for a key the row lacks.
\<close>

definition dict_to_list :: "pykey list \<Rightarrow> row \<Rightarrow> pyerr + pyval list" where
  "dict_to_list fieldnames r =
     (if list_all (\<lambda>k. List.member fieldnames k) (map fst r)
      then Inr (map (\<lambda>k. dict_get_default r k (PStr [])) fieldnames)
      else Inl ValueError)"

definition persist :: "env \<Rightarrow> string \<Rightarrow> row list \<Rightarrow> pyerr + pykey list \<times> pyval list list" where
  "persist E path rows =
     (case write_fault E path of
        Some e \<Rightarrow> Inl e
      | None \<Rightarrow>
          (case rows of
             [] \<Rightarrow> Inl IndexError
           | first # rest \<Rightarrow>
               (let fieldnames = map fst first
                in bind_err (map_err (dict_to_list fieldnames) rows)
                     (\<lambda>records. Inr (fieldnames, records)))))"

text \<open>
  \<open>enhance_metadata_csv\<close>. \<open>load_and_populate\<close> is the \<open>try\<close> block up to the write;
  \<open>downloaded_files\<close> is \<open>None\<close> or a list, and the list is used when it is true
  (non-empty). The handler turns every exception into \<open>False\<close>.
\<close>

definition load_and_populate ::
  "pylib \<Rightarrow> env \<Rightarrow> string \<Rightarrow> (string \<times> string) list \<Rightarrow> download_record list option
     \<Rightarrow> pyerr + row list" where
  "load_and_populate L E metadata_path download_folders downloaded_files =
     bind_err (read_rows E metadata_path) (\<lambda>rows.
       let rows = initialize_metadata_fields rows in
       case downloaded_files of
         Some (f # fs) \<Rightarrow> populate_from_downloaded_files L rows (f # fs)
       | _ \<Rightarrow> populate_from_folders L E rows download_folders)"

definition enhance_metadata_csv ::
  "pylib \<Rightarrow> env \<Rightarrow> string \<Rightarrow> (string \<times> string) list \<Rightarrow> download_record list option
     \<Rightarrow> bool \<times> disk" where
  "enhance_metadata_csv L E metadata_path download_folders downloaded_files =
     (if \<not> path_exists E metadata_path then (False, Untouched)
      else (case load_and_populate L E metadata_path download_folders downloaded_files of
          Inl e \<Rightarrow> (False, Untouched)
        | Inr rows \<Rightarrow>
            (case persist E metadata_path rows of
               Inl e \<Rightarrow> (False, Partial)
             | Inr (fieldnames, records) \<Rightarrow> (True, Written fieldnames records))))"

text \<open>The value a persisted record holds in a column, as \<open>row.get(column, '')\<close> reads it
  back.\<close>

definition record_value :: "pykey list \<Rightarrow> pyval list \<Rightarrow> pykey \<Rightarrow> pyval" where
  "record_value fieldnames cells k = dict_get_default (zip fieldnames cells) k (PStr [])"

text \<open>The column a call persisted, one value for each record written, when the call
  wrote the table.\<close>

definition persisted_column :: "disk \<Rightarrow> pykey \<Rightarrow> pyval list option" where
  "persisted_column d K =
     (case d of
        Written fieldnames records \<Rightarrow>
          Some (map (\<lambda>cells. record_value fieldnames cells K) records)
      | _ \<Rightarrow> None)"

text \<open>
  Examples: a table \<open>meta.csv\<close> whose only row has \<open>id_no = ABC\<close>, the same with a file
  that cannot be written, a table whose second record is longer than the header, and
  download records for the file \<open>ABC_LST.tif\<close>.
\<close>

definition example_env :: env where
  "example_env =
     \<lparr>path_exists = (\<lambda>p. p = ''meta.csv''),
      listdir = (\<lambda>p. Inr []),
      read_rows = (\<lambda>p. Inr [[(KStr ''id_no'', PStr ''ABC'')]]),
      write_fault = (\<lambda>p. None)\<rparr>"

definition readonly_env :: env where
  "readonly_env = example_env\<lparr>write_fault := (\<lambda>p. Some OSError)\<rparr>"


definition lst_record :: download_record where
  "lst_record =
     \<lparr>filename = ''ABC_LST.tif'', folder_path = ''ecostress/LST'', file_type = ''QC'',
      granule_metadata = [(''band_type'', PStr ''LST'')]\<rparr>"


definition timed_record :: download_record where
  "timed_record =
     \<lparr>filename = ''ABC_LST.tif'', folder_path = ''ecostress/LST'', file_type = ''LST'',
      granule_metadata =
        [(''time_start'', PInt 1735732800000),
         (''beginning_date_time'', PStr ''2025-01-01T12:00:00Z''),
         (''ending_date_time'', PStr ''2025-01-01T12:00:52Z'')]\<rparr>"

text \<open>A second file of the granule of \<open>timed_record\<close>: the download stage appends one
  record for each file, all with the metadata of the granule.\<close>

definition qc_record :: download_record where
  "qc_record = timed_record\<lparr>filename := ''ABC_QC.tif'', folder_path := ''ecostress/QC'',
     file_type := ''QC''\<rparr>"


section \<open>Properties\<close>

lemma bind_err_simps [simp]:
  "bind_err (Inl e) f = Inl e"
  "bind_err (Inr x) f = f x"
  by (simp_all add: bind_err_def)

lemma str_contains_single: "str_contains [c] s = (c \<in> set s)"
  by (induction s) (auto simp: starts_with_def)

text \<open>
  C8. The tile codec returns the empty string for every string shorter than three
  characters (the empty string included) and raises nothing; for a longer string it
  returns \<open>EPSG326\<close> followed by the first two characters when the third character is one
  of \<open>NPQRSTUVWX\<close>, and \<open>EPSG327\<close> followed by the first two characters otherwise. So
  \<open>18TUN\<close> gives \<open>EPSG32618\<close>, \<open>47MDU\<close> gives \<open>EPSG32747\<close>, and the empty string and
  \<open>1T\<close> give the empty string.
\<close>

theorem get_epsg_from_mgrs_string:
  "get_epsg_from_mgrs L (PStr s) =
     Inr (PStr (if length s < 3 then ''''
                else if s ! 2 \<in> set ''NPQRSTUVWX'' then ''EPSG326'' @ take 2 s
                else ''EPSG327'' @ take 2 s))
   \<and> get_epsg_from_mgrs L (PStr ''18TUN'') = Inr (PStr ''EPSG32618'')
   \<and> get_epsg_from_mgrs L (PStr ''47MDU'') = Inr (PStr ''EPSG32747'')
   \<and> get_epsg_from_mgrs L (PStr '''') = Inr (PStr '''')
   \<and> get_epsg_from_mgrs L (PStr ''1T'') = Inr (PStr '''')"
proof -
  have gen: "get_epsg_from_mgrs L (PStr t) =
     Inr (PStr (if length t < 3 then ''''
                else if t ! 2 \<in> set ''NPQRSTUVWX'' then ''EPSG326'' @ take 2 t
                else ''EPSG327'' @ take 2 t))" for t
    by (cases "t = []")
       (simp_all add: get_epsg_from_mgrs_def py_len_def py_take2_def py_index_def
          py_in_str_def py_format_def str_contains_single del: str_contains.simps)
  show ?thesis
    by (simp add: gen)
qed

lemma map_of_dict_set [simp]: "map_of (dict_set k v d) = (map_of d)(k \<mapsto> v)"
  by (simp add: dict_set_def update_conv')

lemma distinct_dict_set: "distinct (map fst d) \<Longrightarrow> distinct (map fst (dict_set k v d))"
  by (simp add: dict_set_def distinct_update)

lemma dict_set_same: "map_of d k = Some v \<Longrightarrow> dict_set k v d = d"
  by (simp add: dict_set_def update_triv)

lemma length_dict_set_ge: "length d \<le> length (dict_set k v d)"
  by (induction d) (auto simp: dict_set_def)

lemma map_of_store_match:
  "map_of (store_match key m md) k = (if k = key \<and> m \<noteq> None then m else map_of md k)"
  by (cases m) (auto simp: store_match_def)

lemma distinct_store_match:
  "distinct (map fst md) \<Longrightarrow> distinct (map fst (store_match key m md))"
  by (cases m) (simp_all add: store_match_def distinct_dict_set)

lemma map_of_run_extractions:
  "distinct (map fst table) \<Longrightarrow>
   map_of (run_extractions table ur md) k =
     (case map_of table k of
        Some f \<Rightarrow> (case f ur of Some v \<Rightarrow> Some v | None \<Rightarrow> map_of md k)
      | None \<Rightarrow> map_of md k)"
proof (induction table arbitrary: md)
  case Nil
  then show ?case by (simp add: run_extractions_def)
next
  case (Cons p table)
  obtain key f where p: "p = (key, f)" by (cases p)
  have d: "distinct (map fst table)" and notin: "key \<notin> fst ` set table"
    using Cons.prems p by auto
  have step: "run_extractions ((key, f) # table) ur md =
      run_extractions table ur (store_match key (f ur) md)"
    by (simp add: run_extractions_def)
  show ?case
  proof (cases "k = key")
    case True
    then have "map_of table k = None" using notin by (simp add: map_of_eq_None_iff)
    then show ?thesis
      using True Cons.IH [OF d, of "store_match key (f ur) md"]
      by (simp add: step p map_of_store_match split: option.splits)
  next
    case False
    then show ?thesis
      by (simp add: step Cons.IH [OF d] p map_of_store_match split: option.splits)
  qed
qed

lemma distinct_run_extractions:
  "distinct (map fst md) \<Longrightarrow> distinct (map fst (run_extractions table ur md))"
  by (induction table arbitrary: md)
     (auto simp: run_extractions_def distinct_store_match)

lemma extract_filename_metadata_table:
  "extract_filename_metadata ur = run_extractions filename_extractions ur []"
  by (simp add: extract_filename_metadata_def run_extractions_def filename_extractions_def Let_def)

lemma distinct_filename_extractions: "distinct (map fst filename_extractions)"
  by (simp add: filename_extractions_def)

lemma permuted_table:
  assumes "mset ps = mset table" "distinct (map fst table)"
  shows "distinct (map fst ps) \<and> map_of ps = map_of table"
proof -
  have m: "mset (map fst ps) = mset (map fst table)" using assms(1) by (metis mset_map)
  then have d: "distinct (map fst ps)" using assms(2) by (metis mset_eq_imp_distinct_iff)
  have "set ps = set table" using assms(1) by (metis mset_eq_setD)
  then show ?thesis using d assms(2) by (simp add: map_of_inject_set)
qed

lemma fold_dict_set_same:
  "\<forall>(k, v) \<in> set d. map_of m k = Some v \<Longrightarrow> fold (\<lambda>(k, v). dict_set k v) d m = m"
  by (induction d arbitrary: m) (auto simp: dict_set_same)

lemma map_of_dict_update_distinct:
  "distinct (map fst d) \<Longrightarrow> (k, v) \<in> set d \<Longrightarrow> map_of (dict_update m d) k = Some v"
proof (induction d arbitrary: m)
  case Nil then show ?case by simp
next
  case (Cons p d)
  obtain k' v' where p: "p = (k', v')" by (cases p)
  have u: "dict_update m (p # d) = dict_update (dict_set k' v' m) d"
    by (simp add: dict_update_def p)
  have other: "map_of (dict_update m' d) x = map_of m' x" if "x \<notin> fst ` set d" for m' x
    using that by (induction d arbitrary: m') (auto simp: dict_update_def)
  show ?case
  proof (cases "(k, v) \<in> set d")
    case True
    then show ?thesis using Cons u by simp
  next
    case False
    then have kv: "k = k'" "v = v'" using Cons.prems p by auto
    have "k' \<notin> fst ` set d" using Cons.prems p by auto
    then show ?thesis by (simp add: u other kv)
  qed
qed

lemma dict_update_idem:
  "distinct (map fst d) \<Longrightarrow> dict_update (dict_update m d) d = dict_update m d"
  unfolding dict_update_def [of "dict_update m d"]
  by (rule fold_dict_set_same) (auto simp: map_of_dict_update_distinct)

text \<open>
  C5. The identifier \<open>ECOv002_L2T_LSTE_00048_003_18TUN_20250101T120000_0712_01\<close> parses to
  processing id \<open>0712_01\<close>, tile \<open>18TUN\<close>, orbit number \<open>00048\<close>, version \<open>002\<close>, level
  \<open>L2T\<close>, scene the integer 3 and orbit-scene \<open>00048_003\<close>. For every identifier, running
  the seven extractions in any order gives the same mapping as the parser does, and
  merging the parser's result a second time changes nothing.
\<close>

theorem filename_parser_example_and_order:
  "extract_filename_metadata ''ECOv002_L2T_LSTE_00048_003_18TUN_20250101T120000_0712_01'' =
     [(''processing_ID'', PStr ''0712_01''), (''mgrs_tile'', PStr ''18TUN''),
      (''orbit_number_from_filename'', PStr ''00048''),
      (''version_from_filename'', PStr ''002''), (''processing_level'', PStr ''L2T''),
      (''scene'', PInt 3), (''orbit_scene'', PStr ''00048_003'')]
   \<and> (\<forall>ps. mset ps = mset filename_extractions \<longrightarrow>
          map_of (run_extractions ps ur []) = map_of (extract_filename_metadata ur))
   \<and> dict_update (dict_update md (extract_filename_metadata ur)) (extract_filename_metadata ur) =
       dict_update md (extract_filename_metadata ur)"
proof (intro conjI allI impI)
  show "extract_filename_metadata ''ECOv002_L2T_LSTE_00048_003_18TUN_20250101T120000_0712_01'' =
     [(''processing_ID'', PStr ''0712_01''), (''mgrs_tile'', PStr ''18TUN''),
      (''orbit_number_from_filename'', PStr ''00048''),
      (''version_from_filename'', PStr ''002''), (''processing_level'', PStr ''L2T''),
      (''scene'', PInt 3), (''orbit_scene'', PStr ''00048_003'')]"
    by code_simp
next
  fix ps :: "(string \<times> (string \<Rightarrow> pyval option)) list"
  assume perm: "mset ps = mset filename_extractions"
  from permuted_table [OF perm distinct_filename_extractions]
  have d: "distinct (map fst ps)" and m: "map_of ps = map_of filename_extractions"
    by simp_all
  show "map_of (run_extractions ps ur []) = map_of (extract_filename_metadata ur)"
  proof
    fix k
    show "map_of (run_extractions ps ur []) k = map_of (extract_filename_metadata ur) k"
      by (simp add: extract_filename_metadata_table map_of_run_extractions [OF d]
            map_of_run_extractions [OF distinct_filename_extractions] m)
  qed
next
  have "distinct (map fst (extract_filename_metadata ur))"
    by (simp add: extract_filename_metadata_table distinct_run_extractions)
  then show "dict_update (dict_update md (extract_filename_metadata ur))
        (extract_filename_metadata ur) = dict_update md (extract_filename_metadata ur)"
    by (rule dict_update_idem)
qed

theorem filename_parser_order_witness:
  "mset (rev filename_extractions) = mset filename_extractions
   \<and> map_of (run_extractions (rev filename_extractions)
        ''ECOv002_L2T_LSTE_00048_003_18TUN_20250101T120000_0712_01'' []) =
       map_of (extract_filename_metadata
        ''ECOv002_L2T_LSTE_00048_003_18TUN_20250101T120000_0712_01'')"
  using filename_parser_example_and_order
    [where ur = "''ECOv002_L2T_LSTE_00048_003_18TUN_20250101T120000_0712_01''"]
  by simp

text \<open>
  C4. When the record has a non-empty \<open>OrbitCalculatedSpatialDomains\<close> list whose first
  element is a dictionary with \<open>BeginOrbitNumber\<close>, and a non-empty \<open>OrbitParameters\<close>
  list whose first element is a dictionary with \<open>OrbitNumber\<close>, the extracted
  \<open>orbit_number\<close> is the \<open>BeginOrbitNumber\<close> value when that value is true for Python
  (not zero, not empty, not null); when it is false, the test
  \<open>not metadata['orbit_number']\<close> lets the \<open>OrbitNumber\<close> value replace it, while
  \<open>begin_orbit_number\<close> keeps the \<open>BeginOrbitNumber\<close> value.
\<close>

theorem orbit_number_priority:
  assumes domains: "map_of u ''OrbitCalculatedSpatialDomains'' = Some (PList (PDict d1 # ds))"
    and first_orbit: "map_of d1 ''BeginOrbitNumber'' = Some b"
    and params: "map_of u ''OrbitParameters'' = Some (PList (PDict p1 # ps))"
    and number: "map_of p1 ''OrbitNumber'' = Some n"
  shows "\<exists>md. extract_orbit_metadata (PDict u) = Inr md
           \<and> map_of md ''orbit_number'' = Some (if truthy b then b else n)
           \<and> map_of md ''begin_orbit_number'' = Some b"
  using assms
  by (simp add: extract_orbit_metadata_def py_contains_def py_get_def py_index_def
        dict_has_def dict_get_default_def dict_lookup_def nonempty_list_def Let_def)

theorem orbit_number_priority_witness:
  "map_of [(''OrbitCalculatedSpatialDomains'', PList [PDict [(''BeginOrbitNumber'', PInt 48)]]),
           (''OrbitParameters'', PList [PDict [(''OrbitNumber'', PInt 7)]])]
     ''OrbitCalculatedSpatialDomains'' = Some (PList [PDict [(''BeginOrbitNumber'', PInt 48)]])
   \<and> map_of [(''BeginOrbitNumber'', PInt 48)] ''BeginOrbitNumber'' = Some (PInt 48)
   \<and> map_of [(''OrbitNumber'', PInt 7)] ''OrbitNumber'' = Some (PInt 7)
   \<and> (\<exists>md. extract_orbit_metadata
          (PDict [(''OrbitCalculatedSpatialDomains'',
                    PList [PDict [(''BeginOrbitNumber'', PInt 48)]]),
                  (''OrbitParameters'', PList [PDict [(''OrbitNumber'', PInt 7)]])]) = Inr md
        \<and> map_of md ''orbit_number'' = Some (PInt 48)
        \<and> map_of md ''begin_orbit_number'' = Some (PInt 48))"
  using orbit_number_priority
    [of "[(''OrbitCalculatedSpatialDomains'', PList [PDict [(''BeginOrbitNumber'', PInt 48)]]),
          (''OrbitParameters'', PList [PDict [(''OrbitNumber'', PInt 7)]])]"
        "[(''BeginOrbitNumber'', PInt 48)]" "[]" "PInt 48" "[(''OrbitNumber'', PInt 7)]" "[]"
        "PInt 7"]
  by simp

text \<open>
  With \<open>BeginOrbitNumber\<close> 0 and \<open>OrbitNumber\<close> 7 in such a record, \<open>orbit_number\<close> is 7.
\<close>

theorem orbit_number_zero_counterexample:
  "extract_orbit_metadata
     (PDict [(''OrbitCalculatedSpatialDomains'', PList [PDict [(''BeginOrbitNumber'', PInt 0)]]),
             (''OrbitParameters'', PList [PDict [(''OrbitNumber'', PInt 7)]])]) =
   Inr [(''orbit_number'', PInt 7), (''begin_orbit_number'', PInt 0),
        (''end_orbit_number'', PStr [])]"
  by (simp add: extract_orbit_metadata_def py_contains_def py_get_def py_index_def
        dict_has_def dict_get_default_def dict_lookup_def nonempty_list_def Let_def
        dict_set_def)

lemma seq_err_append: "seq_err (xs @ ys) s = bind_err (seq_err xs s) (seq_err ys)"
proof (induction xs arbitrary: s)
  case Nil
  then show ?case by simp
next
  case (Cons st xs)
  then show ?case by (cases "st s") simp_all
qed

lemma keys_dict_set: "fst ` set (dict_set k v d) = insert k (fst ` set d)"
  by (simp add: dict_set_def dom_update)

lemma map_of_dict_update_other:
  "k \<notin> fst ` set d \<Longrightarrow> map_of (dict_update m d) k = map_of m k"
  by (induction d arbitrary: m) (auto simp: dict_update_def)

lemma dict_del_dict_set:
  "k \<noteq> key \<Longrightarrow> dict_del k (dict_set key v d) = dict_set key v (dict_del k d)"
  by (simp add: dict_del_def dict_set_def delete_update)

lemma dict_del_dict_set_same: "dict_del k (dict_set k v d) = dict_del k d"
  by (simp add: dict_del_def dict_set_def delete_update_same)

lemma dict_del_dict_update:
  "k \<notin> fst ` set d \<Longrightarrow> dict_del k (dict_update m d) = dict_update (dict_del k m) d"
  by (induction d arbitrary: m) (auto simp: dict_update_def dict_del_dict_set)

lemma untouched_assign: "k \<noteq> key \<Longrightarrow> untouched k (assign key rhs)"
  by (cases rhs) (simp_all add: untouched_def assign_def dict_del_dict_set)

lemma untouched_update_with:
  "(\<And>d. rhs = Inr d \<Longrightarrow> k \<notin> fst ` set d) \<Longrightarrow> untouched k (update_with rhs)"
  by (cases rhs)
     (simp_all add: untouched_def update_with_def map_of_dict_update_other dict_del_dict_update)

lemma untouched_Inr: "untouched k st \<Longrightarrow> st md = Inr md' \<Longrightarrow>
    map_of md' k = map_of md k \<and> st (dict_del k md) = Inr (dict_del k md')"
  unfolding untouched_def by (drule spec [of _ md]) simp

lemma untouched_Inl: "untouched k st \<Longrightarrow> st md = Inl e \<Longrightarrow> st (dict_del k md) = Inl e"
  unfolding untouched_def by (drule spec [of _ md]) simp

lemma untouched_seq_err: "list_all (untouched k) steps \<Longrightarrow> untouched k (seq_err steps)"
proof (induction steps)
  case Nil
  then show ?case by (simp add: untouched_def)
next
  case (Cons st steps)
  then have st: "untouched k st" and rest: "untouched k (seq_err steps)" by simp_all
  show ?case
    unfolding untouched_def
  proof
    fix md
    show "case seq_err (st # steps) md of
            Inl e \<Rightarrow> seq_err (st # steps) (dict_del k md) = Inl e
          | Inr md' \<Rightarrow> map_of md' k = map_of md k
              \<and> seq_err (st # steps) (dict_del k md) = Inr (dict_del k md')"
    proof (cases "st md")
      case (Inl e)
      then show ?thesis using untouched_Inl [OF st Inl] by simp
    next
      case (Inr m1)
      note m1 = untouched_Inr [OF st Inr]
      show ?thesis
      proof (cases "seq_err steps m1")
        case (Inl e)
        then show ?thesis using Inr m1 untouched_Inl [OF rest Inl] by simp
      next
        case (Inr m2)
        then show ?thesis using \<open>st md = Inr m1\<close> m1 untouched_Inr [OF rest Inr] by simp
      qed
    qed
  qed
qed

lemma spatial_keys:
  "extract_spatial_metadata umm = Inr d \<Longrightarrow>
   map fst d = [''north_lat'', ''south_lat'', ''east_lon'', ''west_lon'']"
  by (auto simp: extract_spatial_metadata_def bind_err_def split: sum.splits if_splits)

lemma provider_dates_loop_keys:
  "provider_dates_loop L items m = Inr d \<Longrightarrow> k \<in> fst ` set d \<Longrightarrow>
   k \<in> fst ` set m \<or> starts_with ''provider_date_'' k"
proof (induction items arbitrary: m)
  case Nil
  then show ?case by simp
next
  case (Cons pdate rest)
  show ?case
  proof (cases "py_get pdate ''Type'' (PStr [])")
    case (Inl e)
    then show ?thesis using Cons.prems by simp
  next
    case (Inr date_type)
    show ?thesis
    proof (cases "truthy date_type")
      case False
      then show ?thesis using Cons Inr by simp
    next
      case True
      then obtain date lowered where
        run: "provider_dates_loop L rest (dict_set (''provider_date_'' @ lowered) date m) = Inr d"
        using Cons.prems(1) Inr
        by (auto simp: bind_err_def split: sum.splits)
      from Cons.IH [OF run Cons.prems(2)] show ?thesis
        by (auto simp: keys_dict_set starts_with_def)
    qed
  qed
qed

lemma provider_dates_keys:
  "extract_provider_dates L umm = Inr d \<Longrightarrow> k \<in> fst ` set d \<Longrightarrow>
   starts_with ''provider_date_'' k"
  using provider_dates_loop_keys [of L _ "[]" d k]
  by (auto simp: extract_provider_dates_def bind_err_def split: sum.splits)

lemma platform_keys:
  "extract_platform_metadata umm = Inr d \<Longrightarrow>
   fst ` set d \<subseteq> {''platform_short_name'', ''sensor''}"
  by (auto simp: extract_platform_metadata_def bind_err_def Let_def dict_set_def
        split: sum.splits if_splits)

lemma orbit_keys:
  "extract_orbit_metadata umm = Inr d \<Longrightarrow>
   fst ` set d \<subseteq> {''orbit_number'', ''begin_orbit_number'', ''end_orbit_number''}"
  by (auto simp: extract_orbit_metadata_def bind_err_def Let_def dict_set_def
        split: sum.splits if_splits)

lemma additional_attributes_loop_keys:
  "additional_attributes_loop L items m = Inr d \<Longrightarrow> k \<in> fst ` set d \<Longrightarrow>
   k \<in> fst ` set m \<or> starts_with ''attr_'' k"
proof (induction items arbitrary: m)
  case Nil
  then show ?case by simp
next
  case (Cons attr rest)
  from Cons.prems(1) consider
      "additional_attributes_loop L rest m = Inr d"
    | name joined where
      "additional_attributes_loop L rest (dict_set (''attr_'' @ name) joined m) = Inr d"
    by (auto simp: bind_err_def Let_def split: sum.splits if_splits)
  then show ?case
  proof cases
    case 1
    from Cons.IH [OF 1 Cons.prems(2)] show ?thesis .
  next
    case 2
    from Cons.IH [OF 2 Cons.prems(2)] show ?thesis
      by (auto simp: keys_dict_set starts_with_def)
  qed
qed

lemma additional_attributes_keys:
  "extract_additional_attributes L umm = Inr d \<Longrightarrow> k \<in> fst ` set d \<Longrightarrow>
   starts_with ''attr_'' k"
  using additional_attributes_loop_keys [of L _ "[]" d k]
  by (auto simp: extract_additional_attributes_def bind_err_def split: sum.splits)

lemma seq_err_append_Inr:
  "seq_err (xs @ ys) s = Inr r \<Longrightarrow> \<exists>m. seq_err xs s = Inr m \<and> seq_err ys m = Inr r"
  by (cases "seq_err xs s") (simp_all add: seq_err_append)

lemma steps_before_time_untouched:
  "k \<notin> set [''short_name'', ''version'', ''pge_version'', ''beginning_date_time'',
              ''ending_date_time''] \<Longrightarrow>
   list_all (untouched k) (steps_before_time g)"
  by (simp add: steps_before_time_def Let_def untouched_assign)

lemma untouched_guarded:
  assumes "\<And>b. untouched k (f b)"
  shows "untouched k (\<lambda>md. bind_err c (\<lambda>b. f b md))"
proof (cases c)
  case (Inl e)
  then show ?thesis by (simp add: untouched_def)
next
  case (Inr b)
  have "(\<lambda>md. f b md) = f b" by simp
  then show ?thesis using assms [of b] Inr by simp
qed

lemma untouched_skip: "untouched k Inr"
  by (simp add: untouched_def)

lemma time_start_step_untouched: "k \<noteq> ''time_start'' \<Longrightarrow> untouched k (time_start_step L g)"
proof -
  assume k: "k \<noteq> ''time_start''"
  have eq: "time_start_step L g =
      (\<lambda>md. bind_err (beginning_datetime_of g)
         (\<lambda>b. (if truthy b then assign ''time_start'' (Inr (convert_to_timestamp L b))
               else Inr) md))"
    by (simp add: time_start_step_def fun_eq_iff if_distrib [of "\<lambda>f. f _"] cong: if_cong)
  show ?thesis
    unfolding eq
    by (rule untouched_guarded) (simp add: untouched_assign [OF k] untouched_skip)
qed

lemma steps_after_time_untouched:
  assumes "k \<notin> set [''north_lat'', ''south_lat'', ''east_lon'', ''west_lon'', ''day_night_flag'',
              ''production_date_time'', ''platform_short_name'', ''sensor'', ''size_mb'',
              ''orbit_number'', ''begin_orbit_number'', ''end_orbit_number'',
              ''parameter_names'']"
    and "\<not> starts_with ''provider_date_'' k" and "\<not> starts_with ''attr_'' k"
  shows "list_all (untouched k) (steps_after_time L g)"
proof -
  have sp: "untouched k (update_with (extract_spatial_metadata umm))" for umm
  proof (rule untouched_update_with)
    fix d assume "extract_spatial_metadata umm = Inr d"
    from spatial_keys [OF this]
    have eq: "map fst d = [''north_lat'', ''south_lat'', ''east_lon'', ''west_lon'']" .
    have "k \<notin> set (map fst d)" unfolding eq using assms(1) by simp
    then show "k \<notin> fst ` set d" by simp
  qed
  have pd: "untouched k (update_with (extract_provider_dates L umm))" for umm
    using provider_dates_keys assms(2) by (intro untouched_update_with) blast
  have pl: "untouched k (update_with (extract_platform_metadata umm))" for umm
    using platform_keys [of umm] assms(1) by (intro untouched_update_with) auto
  have ob: "untouched k (update_with (extract_orbit_metadata umm))" for umm
    using orbit_keys [of umm] assms(1) by (intro untouched_update_with) auto
  have at: "untouched k (update_with (extract_additional_attributes L umm))" for umm
    using additional_attributes_keys assms(3) by (intro untouched_update_with) blast
  show ?thesis
    using assms(1) by (simp add: steps_after_time_def Let_def untouched_assign sp pd pl ob at)
qed

lemma later_steps_untouched:
  assumes "k \<in> set [''processing_ID'', ''mgrs_tile'', ''orbit_number_from_filename'',
             ''version_from_filename'', ''processing_level'', ''scene'', ''orbit_scene'']"
  shows "untouched k
           (seq_err (steps_before_time g @ [time_start_step L g] @ steps_after_time L g))"
proof -
  have "list_all (untouched k) (steps_before_time g)"
    using assms by (intro steps_before_time_untouched) auto
  moreover have "untouched k (time_start_step L g)"
    using assms by (intro time_start_step_untouched) auto
  moreover have "list_all (untouched k) (steps_after_time L g)"
    using assms by (intro steps_after_time_untouched) (auto simp: starts_with_def)
  ultimately show ?thesis
    by (intro untouched_seq_err) simp
qed

lemma before_filename_defaults:
  assumes "seq_err (steps_before_filename g) [] = Inr m"
  shows "map_of m ''processing_ID'' = Some (PStr [])"
    and "map_of m ''mgrs_tile'' = Some (PStr [])"
    and "map_of m ''orbit_number_from_filename'' = Some (PStr [])"
    and "map_of m ''version_from_filename'' = Some (PStr [])"
    and "map_of m ''processing_level'' = Some (PStr [])"
    and "map_of m ''scene'' = None"
    and "map_of m ''orbit_scene'' = None"
  using assms
  by (auto simp: steps_before_filename_def Let_def assign_def bind_err_def split: sum.splits)

lemma map_of_extract_filename_metadata:
  "map_of (extract_filename_metadata ur) ''processing_ID'' =
     map_option PStr (re_search match_processing_id ur)"
  "map_of (extract_filename_metadata ur) ''mgrs_tile'' = map_option PStr (re_search match_mgrs ur)"
  "map_of (extract_filename_metadata ur) ''orbit_number_from_filename'' =
     map_option PStr (re_search match_orbit ur)"
  "map_of (extract_filename_metadata ur) ''version_from_filename'' =
     map_option PStr (re_search match_version ur)"
  "map_of (extract_filename_metadata ur) ''processing_level'' =
     map_option PStr (re_search match_level ur)"
  "map_of (extract_filename_metadata ur) ''scene'' =
     map_option (\<lambda>g. PInt (int_of_digits g)) (re_search match_scene ur)"
  "map_of (extract_filename_metadata ur) ''orbit_scene'' =
     map_option PStr (re_search match_orbit_scene ur)"
  unfolding extract_filename_metadata_table
    map_of_run_extractions [OF distinct_filename_extractions]
  by (simp_all add: filename_extractions_def split: option.splits)

lemma map_of_dict_update_None:
  "map_of d k = None \<Longrightarrow> map_of (dict_update m d) k = map_of m k"
  by (rule map_of_dict_update_other) (simp add: map_of_eq_None_iff)

lemma filename_step_string:
  assumes "filename_step g m = Inr m'" and "granule_ur_of g = Inr v" and "truthy v"
  shows "\<exists>ur. v = PStr ur \<and> ur \<noteq> [] \<and> m' = dict_update m (extract_filename_metadata ur)"
  using assms
  by (cases v)
     (simp_all add: filename_step_def update_with_def py_extract_filename_metadata_def)

lemma extract_granule_metadata_split:
  assumes "extract_granule_metadata L g = Inr md"
  obtains m1 m2 where "seq_err (steps_before_filename g) [] = Inr m1"
    and "filename_step g m1 = Inr m2"
    and "seq_err (steps_before_time g @ [time_start_step L g] @ steps_after_time L g) m2 = Inr md"
proof -
  from assms obtain m1 where a: "seq_err (steps_before_filename g) [] = Inr m1"
    and b: "seq_err ([filename_step g] @ steps_before_time g @ [time_start_step L g]
              @ steps_after_time L g) m1 = Inr md"
    unfolding extract_granule_metadata_def by (blast dest: seq_err_append_Inr)
  from seq_err_append_Inr [OF b] obtain m2 where c: "seq_err [filename_step g] m1 = Inr m2"
    and d: "seq_err (steps_before_time g @ [time_start_step L g] @ steps_after_time L g) m2
              = Inr md"
    by blast
  from c have "filename_step g m1 = Inr m2"
    by (cases "filename_step g m1") simp_all
  with a d that show thesis by blast
qed

text \<open>
  C6. For a granule whose granule UR is true (non-empty), the extractor's output, when it
  returns one, comes from a string UR, and each filename pattern that finds no match
  leaves its field as follows: \<open>processing_ID\<close>, \<open>mgrs_tile\<close>,
  \<open>orbit_number_from_filename\<close>, \<open>version_from_filename\<close> and \<open>processing_level\<close> hold
  the empty string, while \<open>scene\<close> and also \<open>orbit_scene\<close> are absent from the mapping.
\<close>

theorem unmatched_filename_fields:
  assumes ex: "extract_granule_metadata L g = Inr md"
    and gur: "granule_ur_of g = Inr v" and tr: "truthy v"
  shows "\<exists>ur. v = PStr ur \<and> ur \<noteq> []
    \<and> (re_search match_processing_id ur = None \<longrightarrow> map_of md ''processing_ID'' = Some (PStr []))
    \<and> (re_search match_mgrs ur = None \<longrightarrow> map_of md ''mgrs_tile'' = Some (PStr []))
    \<and> (re_search match_orbit ur = None \<longrightarrow>
          map_of md ''orbit_number_from_filename'' = Some (PStr []))
    \<and> (re_search match_version ur = None \<longrightarrow>
          map_of md ''version_from_filename'' = Some (PStr []))
    \<and> (re_search match_level ur = None \<longrightarrow> map_of md ''processing_level'' = Some (PStr []))
    \<and> (re_search match_scene ur = None \<longrightarrow> map_of md ''scene'' = None)
    \<and> (re_search match_orbit_scene ur = None \<longrightarrow> map_of md ''orbit_scene'' = None)"
proof -
  from ex obtain m1 m2 where a: "seq_err (steps_before_filename g) [] = Inr m1"
    and f: "filename_step g m1 = Inr m2"
    and r: "seq_err (steps_before_time g @ [time_start_step L g] @ steps_after_time L g) m2
              = Inr md"
    by (rule extract_granule_metadata_split)
  from filename_step_string [OF f gur tr] obtain ur where v: "v = PStr ur" and ne: "ur \<noteq> []"
    and m2: "m2 = dict_update m1 (extract_filename_metadata ur)"
    by blast
  have later: "map_of md k = map_of m2 k"
    if "k \<in> set [''processing_ID'', ''mgrs_tile'', ''orbit_number_from_filename'',
             ''version_from_filename'', ''processing_level'', ''scene'', ''orbit_scene'']" for k
    using untouched_Inr [OF later_steps_untouched [OF that] r] by simp
  note d = before_filename_defaults [OF a]
  note e = map_of_extract_filename_metadata [of ur]
  have p1: "re_search match_processing_id ur = None \<longrightarrow> map_of md ''processing_ID'' = Some (PStr [])"
    by (simp add: later m2 map_of_dict_update_None e d)
  have p2: "re_search match_mgrs ur = None \<longrightarrow> map_of md ''mgrs_tile'' = Some (PStr [])"
    by (simp add: later m2 map_of_dict_update_None e d)
  have p3: "re_search match_orbit ur = None \<longrightarrow>
      map_of md ''orbit_number_from_filename'' = Some (PStr [])"
    by (simp add: later m2 map_of_dict_update_None e d)
  have p4: "re_search match_version ur = None \<longrightarrow>
      map_of md ''version_from_filename'' = Some (PStr [])"
    by (simp add: later m2 map_of_dict_update_None e d)
  have p5: "re_search match_level ur = None \<longrightarrow>
      map_of md ''processing_level'' = Some (PStr [])"
    by (simp add: later m2 map_of_dict_update_None e d)
  have p6: "re_search match_scene ur = None \<longrightarrow> map_of md ''scene'' = None"
    by (simp add: later m2 map_of_dict_update_None e d)
  have p7: "re_search match_orbit_scene ur = None \<longrightarrow> map_of md ''orbit_scene'' = None"
    by (simp add: later m2 map_of_dict_update_None e d)
  show ?thesis
    by (rule exI [of _ ur]) (use v ne p1 p2 p3 p4 p5 p6 p7 in simp)
qed

lemma stars_granule_metadata:
  "extract_granule_metadata L stars_granule =
     Inr [(''concept_type'', PStr []), (''concept_id'', PStr []),
      (''revision_id'', PStr []), (''native_id'', PStr []),
      (''collection_concept_id'', PStr []), (''provider_id'', PStr []),
      (''format'', PStr []), (''revision_date'', PStr []),
      (''granule_ur'', PStr ''ECOv002_L2T_STARS_11SPS_20230101_0712_01''),
      (''processing_ID'', PStr []), (''mgrs_tile'', PStr ''11SPS''),
      (''orbit_number_from_filename'', PStr []),
      (''version_from_filename'', PStr ''002''),
      (''processing_level'', PStr ''L2T''), (''short_name'', PStr []),
      (''version'', PStr []), (''pge_version'', PStr []),
      (''beginning_date_time'', PStr []), (''ending_date_time'', PStr []),
      (''north_lat'', PStr []), (''south_lat'', PStr []),
      (''east_lon'', PStr []), (''west_lon'', PStr []),
      (''day_night_flag'', PStr []), (''production_date_time'', PStr []),
      (''platform_short_name'', PStr []), (''sensor'', PStr []),
      (''size_mb'', PInt 0), (''orbit_number'', PStr []),
      (''begin_orbit_number'', PStr []), (''end_orbit_number'', PStr []),
      (''parameter_names'', PStr [])]"
  by code_simp

theorem unmatched_filename_fields_witness:
  "\<exists>md. extract_granule_metadata example_lib stars_granule = Inr md
     \<and> granule_ur_of stars_granule = Inr (PStr ''ECOv002_L2T_STARS_11SPS_20230101_0712_01'')
     \<and> truthy (PStr ''ECOv002_L2T_STARS_11SPS_20230101_0712_01'')
     \<and> re_search match_processing_id ''ECOv002_L2T_STARS_11SPS_20230101_0712_01'' = None
     \<and> map_of md ''processing_ID'' = Some (PStr [])
     \<and> re_search match_orbit ''ECOv002_L2T_STARS_11SPS_20230101_0712_01'' = None
     \<and> map_of md ''orbit_number_from_filename'' = Some (PStr [])
     \<and> re_search match_scene ''ECOv002_L2T_STARS_11SPS_20230101_0712_01'' = None
     \<and> map_of md ''scene'' = None
     \<and> re_search match_orbit_scene ''ECOv002_L2T_STARS_11SPS_20230101_0712_01'' = None
     \<and> map_of md ''orbit_scene'' = None"
proof -
  have gur: "granule_ur_of stars_granule =
      Inr (PStr ''ECOv002_L2T_STARS_11SPS_20230101_0712_01'')"
    by code_simp
  have tr: "truthy (PStr ''ECOv002_L2T_STARS_11SPS_20230101_0712_01'')"
    by simp
  have n1: "re_search match_processing_id ''ECOv002_L2T_STARS_11SPS_20230101_0712_01'' = None"
    by code_simp
  have n2: "re_search match_orbit ''ECOv002_L2T_STARS_11SPS_20230101_0712_01'' = None"
    by code_simp
  have n3: "re_search match_scene ''ECOv002_L2T_STARS_11SPS_20230101_0712_01'' = None"
    by code_simp
  have n4: "re_search match_orbit_scene ''ECOv002_L2T_STARS_11SPS_20230101_0712_01'' = None"
    by code_simp
  from unmatched_filename_fields [OF stars_granule_metadata [of example_lib] gur tr]
  show ?thesis
    using gur n1 n2 n3 n4 by (simp add: stars_granule_metadata)
qed

text \<open>
  The granule UR \<open>ECOv002_L2T_STARS_11SPS_20230101_0712_01\<close> matches neither the scene
  pattern nor the orbit-scene pattern; the output has no \<open>orbit_scene\<close> entry (it is not
  the empty string), for every library.
\<close>

theorem orbit_scene_absent_counterexample:
  "re_search match_orbit_scene ''ECOv002_L2T_STARS_11SPS_20230101_0712_01'' = None
   \<and> (\<forall>L. \<exists>md. extract_granule_metadata L stars_granule = Inr md
          \<and> map_of md ''orbit_scene'' = None
          \<and> map_of md ''orbit_scene'' \<noteq> Some (PStr [])
          \<and> map_of md ''orbit_number_from_filename'' = Some (PStr []))"
proof -
  have "re_search match_orbit_scene ''ECOv002_L2T_STARS_11SPS_20230101_0712_01'' = None"
    by code_simp
  then show ?thesis
    by (simp add: stars_granule_metadata)
qed

lemma untouched_strip:
  "untouched k st \<Longrightarrow> map_sum id (dict_del k) (st md) = st (dict_del k md)"
  by (cases "st md") (auto dest: untouched_Inl untouched_Inr)

lemma py_lower_parser [simp]: "py_lower (L\<lparr>fromisoformat_ms := p\<rparr>) v = py_lower L v"
  by (cases v) (simp_all add: py_lower_def)

lemma provider_dates_loop_parser [simp]:
  "provider_dates_loop (L\<lparr>fromisoformat_ms := p\<rparr>) items m = provider_dates_loop L items m"
  by (induction items arbitrary: m) (simp_all cong: if_cong)

lemma additional_attributes_loop_parser [simp]:
  "additional_attributes_loop (L\<lparr>fromisoformat_ms := p\<rparr>) items m =
   additional_attributes_loop L items m"
  by (induction items arbitrary: m) (simp_all add: Let_def cong: if_cong)

lemma steps_after_time_parser:
  "steps_after_time (L\<lparr>fromisoformat_ms := p\<rparr>) g = steps_after_time L g"
  by (simp add: steps_after_time_def extract_provider_dates_def
        extract_additional_attributes_def)

lemma seq_err_split:
  "seq_err (P @ [T] @ B) s = bind_err (seq_err P s) (\<lambda>m1. bind_err (T m1) (seq_err B))"
proof -
  have "seq_err (T # B) = (\<lambda>m1. bind_err (T m1) (seq_err B))"
    by (simp add: fun_eq_iff)
  then show ?thesis
    by (simp add: seq_err_append)
qed

lemma extract_granule_metadata_time:
  "extract_granule_metadata L g =
     bind_err (seq_err (steps_before_filename g @ [filename_step g] @ steps_before_time g) [])
       (\<lambda>m1. bind_err (time_start_step L g m1) (seq_err (steps_after_time L g)))"
proof -
  have eq: "steps_before_filename g @ [filename_step g] @ steps_before_time g @
          [time_start_step L g] @ steps_after_time L g =
        (steps_before_filename g @ [filename_step g] @ steps_before_time g) @
          [time_start_step L g] @ steps_after_time L g"
    by simp
  show ?thesis
    by (simp only: extract_granule_metadata_def eq seq_err_split)
qed

lemma after_time_untouched: "untouched ''time_start'' (seq_err (steps_after_time L g))"
  by (intro untouched_seq_err steps_after_time_untouched) (simp_all add: starts_with_def)

lemma time_step_then_rest:
  "map_sum id (dict_del ''time_start'')
     (bind_err (time_start_step L g m1) (seq_err (steps_after_time L g))) =
   bind_err (beginning_datetime_of g)
     (\<lambda>b. seq_err (steps_after_time L g) (dict_del ''time_start'' m1))"
proof (cases "beginning_datetime_of g")
  case (Inl e)
  then show ?thesis by (simp add: time_start_step_def)
next
  case (Inr b)
  then show ?thesis
    by (simp add: time_start_step_def assign_def untouched_strip [OF after_time_untouched]
          dict_del_dict_set_same)
qed

lemma strip_extract:
  "map_sum id (dict_del ''time_start'') (extract_granule_metadata L g) =
     bind_err (seq_err (steps_before_filename g @ [filename_step g] @ steps_before_time g) [])
       (\<lambda>m1. bind_err (beginning_datetime_of g)
          (\<lambda>b. seq_err (steps_after_time L g) (dict_del ''time_start'' m1)))"
proof (cases "seq_err (steps_before_filename g @ [filename_step g] @ steps_before_time g) []")
  case (Inl e)
  then show ?thesis by (simp add: extract_granule_metadata_time)
next
  case (Inr m1)
  then show ?thesis by (simp add: extract_granule_metadata_time time_step_then_rest)
qed

lemma time_start_value:
  assumes ex: "extract_granule_metadata L g = Inr md"
    and b: "beginning_datetime_of g = Inr b" and tr: "truthy b"
  shows "map_of md ''time_start'' = Some (convert_to_timestamp L b)"
proof -
  from ex obtain m1 where
    rest: "bind_err (time_start_step L g m1) (seq_err (steps_after_time L g)) = Inr md"
    unfolding extract_granule_metadata_time
    by (cases "seq_err (steps_before_filename g @ [filename_step g] @ steps_before_time g) []")
       simp_all
  have t: "time_start_step L g m1 = Inr (dict_set ''time_start'' (convert_to_timestamp L b) m1)"
    using b tr by (simp add: time_start_step_def assign_def)
  from rest have "seq_err (steps_after_time L g)
      (dict_set ''time_start'' (convert_to_timestamp L b) m1) = Inr md"
    by (simp add: t)
  from untouched_Inr [OF after_time_untouched this] show ?thesis by simp
qed

lemma replace_z_utc:
  "str_replace ''Z'' ''+00:00'' ''2025-01-01T12:00:00Z'' = ''2025-01-01T12:00:00+00:00''"
  by code_simp

lemma replace_z_offset:
  "str_replace ''Z'' ''+00:00'' ''2025-01-01T12:00:00+00:00'' = ''2025-01-01T12:00:00+00:00''"
  by code_simp

lemma replace_z_malformed: "str_replace ''Z'' ''+00:00'' ''not-a-date'' = ''not-a-date''"
  by code_simp

lemmas replace_z_examples = replace_z_utc replace_z_offset replace_z_malformed

text \<open>
  C7. Converting \<open>2025-01-01T12:00:00Z\<close> gives the same value as converting
  \<open>2025-01-01T12:00:00+00:00\<close>, the integer of milliseconds the library computes for the
  latter. Whenever the conversion raises (the value is not a string, or the library
  rejects the text, as for \<open>not-a-date\<close>), \<open>_convert_to_timestamp\<close> returns the empty
  string. Extraction does not depend on the conversion except in the \<open>time_start\<close> entry:
  with any other conversion function it raises the same exception or returns the same
  mapping up to \<open>time_start\<close>; and when \<open>BeginningDateTime\<close> is true and its conversion
  raises, the returned mapping has \<open>time_start\<close> equal to the empty string.
\<close>

theorem timestamp_conversion:
  "convert_to_timestamp L (PStr ''2025-01-01T12:00:00Z'') =
     convert_to_timestamp L (PStr ''2025-01-01T12:00:00+00:00'')
   \<and> (fromisoformat_ms L ''2025-01-01T12:00:00+00:00'' = Inr ms \<longrightarrow>
        convert_to_timestamp L (PStr ''2025-01-01T12:00:00Z'') = PInt ms)
   \<and> (bind_err (py_replace v ''Z'' ''+00:00'') (fromisoformat_ms L) = Inl e \<longrightarrow>
        convert_to_timestamp L v = PStr [])
   \<and> (fromisoformat_ms L ''not-a-date'' = Inl e' \<longrightarrow>
        convert_to_timestamp L (PStr ''not-a-date'') = PStr [])
   \<and> map_sum id (dict_del ''time_start'')
        (extract_granule_metadata (L\<lparr>fromisoformat_ms := p\<rparr>) g) =
       map_sum id (dict_del ''time_start'') (extract_granule_metadata L g)
   \<and> (beginning_datetime_of g = Inr b \<and> truthy b
        \<and> bind_err (py_replace b ''Z'' ''+00:00'') (fromisoformat_ms L) = Inl e''
        \<and> extract_granule_metadata L g = Inr md \<longrightarrow>
        map_of md ''time_start'' = Some (PStr []))"
proof (intro conjI impI)
  show "convert_to_timestamp L (PStr ''2025-01-01T12:00:00Z'') =
     convert_to_timestamp L (PStr ''2025-01-01T12:00:00+00:00'')"
    by (simp add: convert_to_timestamp_def py_replace_def replace_z_examples)
next
  assume "fromisoformat_ms L ''2025-01-01T12:00:00+00:00'' = Inr ms"
  then show "convert_to_timestamp L (PStr ''2025-01-01T12:00:00Z'') = PInt ms"
    by (simp add: convert_to_timestamp_def py_replace_def replace_z_examples)
next
  assume "bind_err (py_replace v ''Z'' ''+00:00'') (fromisoformat_ms L) = Inl e"
  then show "convert_to_timestamp L v = PStr []"
    by (simp add: convert_to_timestamp_def)
next
  assume "fromisoformat_ms L ''not-a-date'' = Inl e'"
  then show "convert_to_timestamp L (PStr ''not-a-date'') = PStr []"
    by (simp add: convert_to_timestamp_def py_replace_def replace_z_examples)
next
  show "map_sum id (dict_del ''time_start'')
        (extract_granule_metadata (L\<lparr>fromisoformat_ms := p\<rparr>) g) =
       map_sum id (dict_del ''time_start'') (extract_granule_metadata L g)"
    by (simp only: strip_extract steps_after_time_parser)
next
  assume h: "beginning_datetime_of g = Inr b \<and> truthy b
        \<and> bind_err (py_replace b ''Z'' ''+00:00'') (fromisoformat_ms L) = Inl e''
        \<and> extract_granule_metadata L g = Inr md"
  then have ex: "extract_granule_metadata L g = Inr md"
    and b: "beginning_datetime_of g = Inr b" and tr: "truthy b"
    by simp_all
  have "map_of md ''time_start'' = Some (convert_to_timestamp L b)"
    by (rule time_start_value [OF ex b tr])
  then show "map_of md ''time_start'' = Some (PStr [])"
    using h by (simp add: convert_to_timestamp_def)
qed

lemma undated_granule_metadata:
  "extract_granule_metadata example_lib undated_granule =
   Inr [(''concept_type'', PStr []), (''concept_id'', PStr []),
      (''revision_id'', PStr []), (''native_id'', PStr []),
      (''collection_concept_id'', PStr []), (''provider_id'', PStr []),
      (''format'', PStr []), (''revision_date'', PStr []),
      (''granule_ur'',
       PStr ''ECOv002_L2T_LSTE_00048_003_18TUN_20250101T120000_0712_01''),
      (''processing_ID'', PStr ''0712_01''),
      (''mgrs_tile'', PStr ''18TUN''),
      (''orbit_number_from_filename'', PStr ''00048''),
      (''version_from_filename'', PStr ''002''),
      (''processing_level'', PStr ''L2T''), (''scene'', PInt 3),
      (''orbit_scene'', PStr ''00048_003''), (''short_name'', PStr []),
      (''version'', PStr []), (''pge_version'', PStr []),
      (''beginning_date_time'', PStr ''not-a-date''),
      (''ending_date_time'', PStr []), (''time_start'', PStr []),
      (''north_lat'', PStr []), (''south_lat'', PStr []),
      (''east_lon'', PStr []), (''west_lon'', PStr []),
      (''day_night_flag'', PStr []), (''production_date_time'', PStr []),
      (''platform_short_name'', PStr []), (''sensor'', PStr []),
      (''size_mb'', PInt 0), (''orbit_number'', PStr []),
      (''begin_orbit_number'', PStr []), (''end_orbit_number'', PStr []),
      (''parameter_names'', PStr [])]"
  by code_simp

theorem timestamp_conversion_witness:
  "fromisoformat_ms example_lib ''2025-01-01T12:00:00+00:00'' = Inr 1735732800000
   \<and> convert_to_timestamp example_lib (PStr ''2025-01-01T12:00:00Z'') = PInt 1735732800000
   \<and> fromisoformat_ms example_lib ''not-a-date'' = Inl ValueError
   \<and> convert_to_timestamp example_lib (PStr ''not-a-date'') = PStr []
   \<and> beginning_datetime_of undated_granule = Inr (PStr ''not-a-date'')
   \<and> truthy (PStr ''not-a-date'')
   \<and> bind_err (py_replace (PStr ''not-a-date'') ''Z'' ''+00:00'')
        (fromisoformat_ms example_lib) = Inl ValueError
   \<and> (\<exists>md. extract_granule_metadata example_lib undated_granule = Inr md
          \<and> map_of md ''time_start'' = Some (PStr [])
          \<and> map_of md ''mgrs_tile'' = Some (PStr ''18TUN''))"
proof -
  have a: "fromisoformat_ms example_lib ''2025-01-01T12:00:00+00:00'' = Inr 1735732800000"
    by (simp add: example_lib_def)
  have b: "fromisoformat_ms example_lib ''not-a-date'' = Inl ValueError"
    by (simp add: example_lib_def)
  have c: "beginning_datetime_of undated_granule = Inr (PStr ''not-a-date'')"
    by code_simp
  have d: "bind_err (py_replace (PStr ''not-a-date'') ''Z'' ''+00:00'')
        (fromisoformat_ms example_lib) = Inl ValueError"
    by (simp add: py_replace_def replace_z_examples b)
  from timestamp_conversion [of example_lib 1735732800000 "PStr ''not-a-date''" ValueError
      ValueError "\<lambda>s. Inl ValueError" undated_granule "PStr ''not-a-date''" ValueError
      "[(''concept_type'', PStr []), (''concept_id'', PStr []),
      (''revision_id'', PStr []), (''native_id'', PStr []),
      (''collection_concept_id'', PStr []), (''provider_id'', PStr []),
      (''format'', PStr []), (''revision_date'', PStr []),
      (''granule_ur'',
       PStr ''ECOv002_L2T_LSTE_00048_003_18TUN_20250101T120000_0712_01''),
      (''processing_ID'', PStr ''0712_01''),
      (''mgrs_tile'', PStr ''18TUN''),
      (''orbit_number_from_filename'', PStr ''00048''),
      (''version_from_filename'', PStr ''002''),
      (''processing_level'', PStr ''L2T''), (''scene'', PInt 3),
      (''orbit_scene'', PStr ''00048_003''), (''short_name'', PStr []),
      (''version'', PStr []), (''pge_version'', PStr []),
      (''beginning_date_time'', PStr ''not-a-date''),
      (''ending_date_time'', PStr []), (''time_start'', PStr []),
      (''north_lat'', PStr []), (''south_lat'', PStr []),
      (''east_lon'', PStr []), (''west_lon'', PStr []),
      (''day_night_flag'', PStr []), (''production_date_time'', PStr []),
      (''platform_short_name'', PStr []), (''sensor'', PStr []),
      (''size_mb'', PInt 0), (''orbit_number'', PStr []),
      (''begin_orbit_number'', PStr []), (''end_orbit_number'', PStr []),
      (''parameter_names'', PStr [])]"]
  show ?thesis
    using a b c d
    by (simp add: undated_granule_metadata convert_to_timestamp_def py_replace_def
          replace_z_examples)
qed


lemma map_err_all2:
  assumes "map_err f xs = Inr ys" and "\<And>x y. f x = Inr y \<Longrightarrow> P x y"
  shows "list_all2 P xs ys"
  using assms(1)
proof (induction xs arbitrary: ys)
  case Nil
  then show ?case by simp
next
  case (Cons x xs)
  then show ?case
    by (cases "f x"; cases "map_err f xs") (auto intro: assms(2))
qed

lemma map_err_total:
  "(\<And>x. x \<in> set xs \<Longrightarrow> f x = Inr (g x)) \<Longrightarrow> map_err f xs = Inr (map g xs)"
  by (induction xs) simp_all


lemma fold_err_append:
  "fold_err f (xs @ ys) s = bind_err (fold_err f xs s) (fold_err f ys)"
proof (induction xs arbitrary: s)
  case Nil
  then show ?case by simp
next
  case (Cons x xs)
  then show ?case by (cases "f x s") simp_all
qed










lemma set_epsg_other:
  "set_epsg L row md = Inr row' \<Longrightarrow> K \<noteq> KStr ''EPSG'' \<Longrightarrow> map_of row' K = map_of row K"
  by (auto simp: set_epsg_def bind_err_def split: option.splits sum.splits if_splits)

lemma transfer_metadata_other:
  "list_all (\<lambda>(k, v). KStr k = K \<longrightarrow> v = PNone) md \<Longrightarrow>
   map_of (transfer_metadata row md) K = map_of row K"
  unfolding transfer_metadata_def
  by (induction md arbitrary: row) auto









lemma persist_Inr:
  assumes "persist E p rows = Inr (hdr, recs)"
  shows "write_fault E p = None" and "rows \<noteq> []" and "hdr = map fst (hd rows)"
    and "map_err (dict_to_list hdr) rows = Inr recs"
  using assms
  by (auto simp: persist_def Let_def bind_err_def split: option.splits list.splits sum.splits)


lemma enhance_True:
  assumes "enhance_metadata_csv L E p folders files = (True, d)"
  shows "path_exists E p \<and> (\<exists>rows hdr recs.
           load_and_populate L E p folders files = Inr rows
           \<and> persist E p rows = Inr (hdr, recs) \<and> d = Written hdr recs)"
  using assms
  by (auto simp: enhance_metadata_csv_def split: if_splits sum.splits prod.splits)

text \<open>
  C3. \<open>enhance_metadata_csv\<close> always returns a boolean. When the table file does not
  exist it returns \<open>False\<close> and the file is untouched; an exception while loading or
  populating gives \<open>False\<close> with the file untouched; an exception while persisting, a
  write error in particular, gives \<open>False\<close>; and it returns \<open>True\<close> only when the file
  exists, nothing raised, and the table was written.
\<close>

theorem enhance_reports_failure:
  "(\<not> path_exists E p \<longrightarrow> enhance_metadata_csv L E p folders files = (False, Untouched))
   \<and> (read_rows E p = Inl e1 \<longrightarrow>
        enhance_metadata_csv L E p folders files = (False, Untouched))
   \<and> (load_and_populate L E p folders files = Inl e2 \<longrightarrow>
        enhance_metadata_csv L E p folders files = (False, Untouched))
   \<and> (load_and_populate L E p folders files = Inr rows \<and> persist E p rows = Inl e3 \<longrightarrow>
        fst (enhance_metadata_csv L E p folders files) = False)
   \<and> (write_fault E p = Some e4 \<longrightarrow> fst (enhance_metadata_csv L E p folders files) = False)
   \<and> (fst (enhance_metadata_csv L E p folders files) \<longrightarrow>
        path_exists E p \<and> write_fault E p = None
        \<and> (\<exists>rows' hdr recs. load_and_populate L E p folders files = Inr rows'
              \<and> persist E p rows' = Inr (hdr, recs)
              \<and> snd (enhance_metadata_csv L E p folders files) = Written hdr recs))"
proof (intro conjI)
  show "\<not> path_exists E p \<longrightarrow> enhance_metadata_csv L E p folders files = (False, Untouched)"
    by (simp add: enhance_metadata_csv_def)
  show "read_rows E p = Inl e1 \<longrightarrow>
        enhance_metadata_csv L E p folders files = (False, Untouched)"
    by (simp add: enhance_metadata_csv_def load_and_populate_def)
  show "load_and_populate L E p folders files = Inl e2 \<longrightarrow>
        enhance_metadata_csv L E p folders files = (False, Untouched)"
    by (simp add: enhance_metadata_csv_def)
  show "load_and_populate L E p folders files = Inr rows \<and> persist E p rows = Inl e3 \<longrightarrow>
        fst (enhance_metadata_csv L E p folders files) = False"
    by (simp add: enhance_metadata_csv_def)
  show "write_fault E p = Some e4 \<longrightarrow> fst (enhance_metadata_csv L E p folders files) = False"
  proof
    assume w: "write_fault E p = Some e4"
    have "persist E p rs = Inl e4" for rs
      using w by (simp add: persist_def)
    then show "fst (enhance_metadata_csv L E p folders files) = False"
      by (simp add: enhance_metadata_csv_def split: sum.splits)
  qed
  show "fst (enhance_metadata_csv L E p folders files) \<longrightarrow>
        path_exists E p \<and> write_fault E p = None
        \<and> (\<exists>rows' hdr recs. load_and_populate L E p folders files = Inr rows'
              \<and> persist E p rows' = Inr (hdr, recs)
              \<and> snd (enhance_metadata_csv L E p folders files) = Written hdr recs)"
  proof
    assume t: "fst (enhance_metadata_csv L E p folders files)"
    then have "enhance_metadata_csv L E p folders files =
        (True, snd (enhance_metadata_csv L E p folders files))"
      by (cases "enhance_metadata_csv L E p folders files") simp
    from enhance_True [OF this] obtain rows' hdr recs where ex: "path_exists E p"
      and l: "load_and_populate L E p folders files = Inr rows'"
      and w: "persist E p rows' = Inr (hdr, recs)"
      and d: "snd (enhance_metadata_csv L E p folders files) = Written hdr recs"
      by auto
    from persist_Inr(1) [OF w] have "write_fault E p = None" .
    with ex l w d
    show "path_exists E p \<and> write_fault E p = None
          \<and> (\<exists>rows' hdr recs. load_and_populate L E p folders files = Inr rows'
                \<and> persist E p rows' = Inr (hdr, recs)
                \<and> snd (enhance_metadata_csv L E p folders files) = Written hdr recs)"
      by auto
  qed
qed

theorem enhance_reports_failure_witness:
  "\<not> path_exists example_env ''missing.csv''
   \<and> enhance_metadata_csv example_lib example_env ''missing.csv'' [] None = (False, Untouched)
   \<and> write_fault readonly_env ''meta.csv'' = Some OSError
   \<and> fst (enhance_metadata_csv example_lib readonly_env ''meta.csv'' [] (Some [lst_record]))
       = False
   \<and> fst (enhance_metadata_csv example_lib example_env ''meta.csv'' [] (Some [lst_record]))
   \<and> path_exists example_env ''meta.csv'' \<and> write_fault example_env ''meta.csv'' = None
   \<and> (\<exists>rows' hdr recs.
         load_and_populate example_lib example_env ''meta.csv'' [] (Some [lst_record])
           = Inr rows'
         \<and> persist example_env ''meta.csv'' rows' = Inr (hdr, recs)
         \<and> snd (enhance_metadata_csv example_lib example_env ''meta.csv'' []
                  (Some [lst_record])) = Written hdr recs)"
proof -
  have a: "\<not> path_exists example_env ''missing.csv''"
    by (simp add: example_env_def)
  have b: "write_fault readonly_env ''meta.csv'' = Some OSError"
    by (simp add: readonly_env_def)
  have c: "fst (enhance_metadata_csv example_lib example_env ''meta.csv'' []
              (Some [lst_record]))"
    by code_simp
  note t1 = enhance_reports_failure
         [of example_env "''missing.csv''" example_lib "[]" None, THEN conjunct1, THEN mp, OF a]
  note t2 = enhance_reports_failure
         [of readonly_env "''meta.csv''" example_lib "[]" "Some [lst_record]" _ _ _ _ OSError,
          THEN conjunct2, THEN conjunct2, THEN conjunct2, THEN conjunct2, THEN conjunct1,
          THEN mp, OF b]
  note t3 = enhance_reports_failure
         [of example_env "''meta.csv''" example_lib "[]" "Some [lst_record]",
          THEN conjunct2, THEN conjunct2, THEN conjunct2, THEN conjunct2, THEN conjunct2,
          THEN mp, OF c]
  show ?thesis
    using a b c t1 t2 t3 by simp
qed

lemma extract_untouched_early:
  assumes "k \<notin> set [''concept_type'', ''concept_id'', ''revision_id'', ''native_id'',
             ''collection_concept_id'', ''provider_id'', ''format'', ''revision_date'',
             ''granule_ur'', ''processing_ID'', ''mgrs_tile'', ''orbit_number_from_filename'',
             ''version_from_filename'', ''processing_level'', ''scene'', ''orbit_scene'']"
  shows "list_all (untouched k) (steps_before_filename g @ [filename_step g])"
proof -
  have a: "list_all (untouched k) (steps_before_filename g)"
    using assms by (simp add: steps_before_filename_def Let_def untouched_assign)
  have keys: "k \<notin> fst ` set (extract_filename_metadata s)" for s
  proof -
    have "map_of (extract_filename_metadata s) k = None"
      unfolding extract_filename_metadata_table
        map_of_run_extractions [OF distinct_filename_extractions]
      using assms by (simp add: filename_extractions_def)
    then show ?thesis by (simp add: map_of_eq_None_iff)
  qed
  have u: "untouched k (if truthy v then update_with (py_extract_filename_metadata v)
             else Inr)" for v
  proof (cases "truthy v")
    case False
    then show ?thesis by (simp add: untouched_skip)
  next
    case True
    have "untouched k (update_with (py_extract_filename_metadata v))"
    proof (rule untouched_update_with)
      fix d
      assume "py_extract_filename_metadata v = Inr d"
      then obtain s where "d = extract_filename_metadata s"
        by (cases v) (auto simp: py_extract_filename_metadata_def)
      then show "k \<notin> fst ` set d" using keys by simp
    qed
    then show ?thesis using True by simp
  qed
  have eq: "filename_step g =
      (\<lambda>md. bind_err (granule_ur_of g)
         (\<lambda>v. (if truthy v then update_with (py_extract_filename_metadata v) else Inr) md))"
    by (simp add: filename_step_def fun_eq_iff if_distrib [of "\<lambda>f. f _"] cong: if_cong)
  have b: "untouched k (filename_step g)"
    unfolding eq by (rule untouched_guarded) (rule u)
  show ?thesis
    using a b by simp
qed

text \<open>The extractor never emits an \<open>id_no\<close> entry: the join key of the table is not a
  field of the metadata it produces.\<close>

lemma extract_granule_metadata_no_id_no:
  assumes "extract_granule_metadata L g = Inr md"
  shows "''id_no'' \<notin> fst ` set md"
proof -
  have u1: "list_all (untouched ''id_no'') (steps_before_filename g @ [filename_step g])"
    by (rule extract_untouched_early) simp
  have u2: "list_all (untouched ''id_no'') (steps_before_time g)"
    by (rule steps_before_time_untouched) simp
  have u3: "untouched ''id_no'' (time_start_step L g)"
    by (rule time_start_step_untouched) simp
  have u4: "list_all (untouched ''id_no'') (steps_after_time L g)"
    by (rule steps_after_time_untouched) (simp_all add: starts_with_def)
  have "untouched ''id_no''
      (seq_err (steps_before_filename g @ [filename_step g] @ steps_before_time g @
        [time_start_step L g] @ steps_after_time L g))"
    using u1 u2 u3 u4 by (intro untouched_seq_err) simp
  from untouched_Inr [OF this assms [unfolded extract_granule_metadata_def]]
  have "map_of md ''id_no'' = None" by simp
  then show ?thesis by (simp add: map_of_eq_None_iff)
qed










text \<open>The extractor never emits one of the columns the reconciler computes itself, nor
  the join key.\<close>

lemma extract_granule_metadata_table_keys:
  assumes ex: "extract_granule_metadata L g = Inr md"
    and k: "k \<in> set [''id_no'', ''system:time_start'', ''system:time_end'', ''band_type'',
                     ''EPSG'']"
  shows "k \<notin> fst ` set md"
proof -
  have u1: "list_all (untouched k) (steps_before_filename g @ [filename_step g])"
    using k by (intro extract_untouched_early) auto
  have u2: "list_all (untouched k) (steps_before_time g)"
    using k by (intro steps_before_time_untouched) auto
  have u3: "untouched k (time_start_step L g)"
    using k by (intro time_start_step_untouched) auto
  have u4: "list_all (untouched k) (steps_after_time L g)"
    using k by (intro steps_after_time_untouched) (auto simp: starts_with_def)
  have "untouched k
      (seq_err (steps_before_filename g @ [filename_step g] @ steps_before_time g @
        [time_start_step L g] @ steps_after_time L g))"
    using u1 u2 u3 u4 by (intro untouched_seq_err) simp
  from untouched_Inr [OF this ex [unfolded extract_granule_metadata_def]]
  have "map_of md k = None" by simp
  then show ?thesis by (simp add: map_of_eq_None_iff)
qed

lemma update_row_system_time:
  assumes u: "update_row_with_metadata L row md ft = Inr row'"
    and K: "K = KStr ''system:time_start'' \<or> K = KStr ''system:time_end''"
    and md: "list_all (\<lambda>(k, v). k = ''system:time_start'' \<or> k = ''system:time_end'' \<longrightarrow>
                        v = PNone) md"
  shows "map_of row' K = map_of (set_system_time L row md) K"
proof -
  from u obtain r where
    e: "set_epsg L (dict_set (KStr ''band_type'') (PStr ft) (set_system_time L row md)) md
          = Inr r"
    and r: "row' = transfer_metadata r md"
    by (auto simp: update_row_with_metadata_def Let_def bind_err_def split: sum.splits)
  have md': "list_all (\<lambda>(k, v). KStr k = K \<longrightarrow> v = PNone) md"
    using md K by (auto simp: list_all_iff)
  have "map_of r K = map_of (dict_set (KStr ''band_type'') (PStr ft)
          (set_system_time L row md)) K"
    using K by (intro set_epsg_other [OF e]) auto
  also have "\<dots> = map_of (set_system_time L row md) K"
    using K by auto
  finally show ?thesis
    by (simp add: r transfer_metadata_other [OF md'])
qed

text \<open>
  C9. When the metadata of a download record has a true \<open>time_start\<close> (not \<open>None\<close>, not
  the empty string, not zero), the system time step sets \<open>system:time_start\<close> and
  \<open>system:time_end\<close> to that value, whatever the date strings of the metadata and the
  date parser are; the row the update returns holds that value in both columns when the
  metadata has no non-null entry under the two column names themselves (the merge would
  copy such an entry). When \<open>time_start\<close> is absent or false the step is the one that
  reads the date strings, which puts the parsed beginning and ending times in the two
  columns.
\<close>

theorem system_time_from_time_start:
  "(map_of md ''time_start'' = Some ts \<and> truthy ts \<longrightarrow>
      set_system_time L row md =
        dict_set (KStr ''system:time_end'') ts (dict_set (KStr ''system:time_start'') ts row)
      \<and> (map_of md2 ''time_start'' = Some ts \<longrightarrow>
            set_system_time L2 row md2 = set_system_time L row md)
      \<and> (update_row_with_metadata L row md ft = Inr row'
           \<and> list_all (\<lambda>(k, v). k = ''system:time_start'' \<or> k = ''system:time_end'' \<longrightarrow>
                               v = PNone) md \<longrightarrow>
          map_of row' (KStr ''system:time_start'') = Some ts
          \<and> map_of row' (KStr ''system:time_end'') = Some ts))
   \<and> (\<not> truthy (dict_get_default md ''time_start'' PNone) \<longrightarrow>
        set_system_time L row md = time_from_dates L row md)
   \<and> (\<not> truthy (dict_get_default md ''time_start'' PNone)
        \<and> map_of md ''beginning_date_time'' = Some (PStr b) \<and> b \<noteq> []
        \<and> fromisoformat_ms L (str_replace ''Z'' ''+00:00'' b) = Inr begin_ms
        \<and> map_of md ''ending_date_time'' = Some (PStr e) \<and> e \<noteq> []
        \<and> fromisoformat_ms L (str_replace ''Z'' ''+00:00'' e) = Inr end_ms \<longrightarrow>
        set_system_time L row md =
          dict_set (KStr ''system:time_end'') (PInt end_ms)
            (dict_set (KStr ''system:time_start'') (PInt begin_ms) row))"
proof (intro conjI)
  show "map_of md ''time_start'' = Some ts \<and> truthy ts \<longrightarrow>
      set_system_time L row md =
        dict_set (KStr ''system:time_end'') ts (dict_set (KStr ''system:time_start'') ts row)
      \<and> (map_of md2 ''time_start'' = Some ts \<longrightarrow>
            set_system_time L2 row md2 = set_system_time L row md)
      \<and> (update_row_with_metadata L row md ft = Inr row'
           \<and> list_all (\<lambda>(k, v). k = ''system:time_start'' \<or> k = ''system:time_end'' \<longrightarrow>
                               v = PNone) md \<longrightarrow>
          map_of row' (KStr ''system:time_start'') = Some ts
          \<and> map_of row' (KStr ''system:time_end'') = Some ts)"
  proof
    assume a: "map_of md ''time_start'' = Some ts \<and> truthy ts"
    then have s: "set_system_time L row md =
        dict_set (KStr ''system:time_end'') ts (dict_set (KStr ''system:time_start'') ts row)"
      by (simp add: set_system_time_def)
    have i: "set_system_time L2 row md2 = set_system_time L row md"
      if "map_of md2 ''time_start'' = Some ts"
      using that a by (simp add: set_system_time_def)
    have f: "map_of row' (KStr ''system:time_start'') = Some ts
        \<and> map_of row' (KStr ''system:time_end'') = Some ts"
      if u: "update_row_with_metadata L row md ft = Inr row'"
        and n: "list_all (\<lambda>(k, v). k = ''system:time_start'' \<or> k = ''system:time_end'' \<longrightarrow>
                               v = PNone) md"
      using update_row_system_time [OF u _ n, of "KStr ''system:time_start''"]
        update_row_system_time [OF u _ n, of "KStr ''system:time_end''"]
      by (simp add: s)
    show "set_system_time L row md =
        dict_set (KStr ''system:time_end'') ts (dict_set (KStr ''system:time_start'') ts row)
      \<and> (map_of md2 ''time_start'' = Some ts \<longrightarrow>
            set_system_time L2 row md2 = set_system_time L row md)
      \<and> (update_row_with_metadata L row md ft = Inr row'
           \<and> list_all (\<lambda>(k, v). k = ''system:time_start'' \<or> k = ''system:time_end'' \<longrightarrow>
                               v = PNone) md \<longrightarrow>
          map_of row' (KStr ''system:time_start'') = Some ts
          \<and> map_of row' (KStr ''system:time_end'') = Some ts)"
      using s i f by simp
  qed
next
  show "\<not> truthy (dict_get_default md ''time_start'' PNone) \<longrightarrow>
        set_system_time L row md = time_from_dates L row md"
    by (simp add: set_system_time_def dict_get_default_def split: option.splits)
next
  show "\<not> truthy (dict_get_default md ''time_start'' PNone)
        \<and> map_of md ''beginning_date_time'' = Some (PStr b) \<and> b \<noteq> []
        \<and> fromisoformat_ms L (str_replace ''Z'' ''+00:00'' b) = Inr begin_ms
        \<and> map_of md ''ending_date_time'' = Some (PStr e) \<and> e \<noteq> []
        \<and> fromisoformat_ms L (str_replace ''Z'' ''+00:00'' e) = Inr end_ms \<longrightarrow>
        set_system_time L row md =
          dict_set (KStr ''system:time_end'') (PInt end_ms)
            (dict_set (KStr ''system:time_start'') (PInt begin_ms) row)"
    by (simp add: set_system_time_def dict_get_default_def time_from_dates_def py_replace_def
          Let_def split: option.splits)
qed

theorem system_time_from_time_start_witness:
  "map_of (granule_metadata timed_record) ''time_start'' = Some (PInt 1735732800000)
   \<and> truthy (PInt 1735732800000)
   \<and> set_system_time example_lib [(KStr ''id_no'', PStr ''ABC'')] (granule_metadata timed_record)
       = [(KStr ''id_no'', PStr ''ABC''), (KStr ''system:time_start'', PInt 1735732800000),
          (KStr ''system:time_end'', PInt 1735732800000)]
   \<and> set_system_time example_lib [] [(''time_start'', PInt 1735732800000)]
       = set_system_time example_lib [] (granule_metadata timed_record)
   \<and> update_row_with_metadata example_lib [(KStr ''id_no'', PStr ''ABC'')]
         (granule_metadata timed_record) ''LST''
       = Inr [(KStr ''id_no'', PStr ''ABC''), (KStr ''system:time_start'', PInt 1735732800000),
              (KStr ''system:time_end'', PInt 1735732800000), (KStr ''band_type'', PStr ''LST'')]
   \<and> persisted_column
        (snd (enhance_metadata_csv example_lib example_env ''meta.csv'' []
                (Some [timed_record])))
        (KStr ''system:time_end'') = Some [PInt 1735732800000]
   \<and> set_system_time example_lib []
        [(''time_start'', PStr []), (''beginning_date_time'', PStr ''2025-01-01T12:00:00Z''),
         (''ending_date_time'', PStr ''2025-01-01T12:00:00Z'')]
       = [(KStr ''system:time_start'', PInt 1735732800000),
          (KStr ''system:time_end'', PInt 1735732800000)]
   \<and> set_system_time example_lib [] [(''beginning_date_time'', PStr ''yesterday'')]
       = time_from_dates example_lib [] [(''beginning_date_time'', PStr ''yesterday'')]"
proof -
  let ?ts = "PInt 1735732800000"
  let ?row = "[(KStr ''id_no'', PStr ''ABC'')]"
  let ?row' = "[(KStr ''id_no'', PStr ''ABC''), (KStr ''system:time_start'', ?ts),
      (KStr ''system:time_end'', ?ts), (KStr ''band_type'', PStr ''LST'')]"
  have a: "map_of (granule_metadata timed_record) ''time_start'' = Some ?ts \<and> truthy ?ts"
    by (simp add: timed_record_def)
  note t1 = system_time_from_time_start [of "granule_metadata timed_record" ?ts example_lib
      ?row "[(''time_start'', ?ts)]" example_lib "''LST''" ?row',
      THEN conjunct1, THEN mp, OF a]
  have s: "set_system_time example_lib ?row (granule_metadata timed_record)
       = [(KStr ''id_no'', PStr ''ABC''), (KStr ''system:time_start'', ?ts),
          (KStr ''system:time_end'', ?ts)]"
    using t1 [THEN conjunct1] by (simp add: dict_set_def)
  have u: "update_row_with_metadata example_lib ?row (granule_metadata timed_record) ''LST''
      = Inr ?row'"
    by code_simp
  have n: "list_all (\<lambda>(k, v). k = ''system:time_start'' \<or> k = ''system:time_end'' \<longrightarrow>
                               v = PNone) (granule_metadata timed_record)"
    by (simp add: timed_record_def)
  note r = t1 [THEN conjunct2, THEN conjunct2, THEN mp, OF conjI [OF u n]]
  note t2 = system_time_from_time_start [of "granule_metadata timed_record" ?ts example_lib
      "[]" "[(''time_start'', ?ts)]" example_lib "''LST''" ?row',
      THEN conjunct1, THEN mp, OF a, THEN conjunct2, THEN conjunct1]
  have i: "set_system_time example_lib [] [(''time_start'', ?ts)]
       = set_system_time example_lib [] (granule_metadata timed_record)"
    using t2 by simp
  have p: "persisted_column
        (snd (enhance_metadata_csv example_lib example_env ''meta.csv'' []
                (Some [timed_record])))
        (KStr ''system:time_end'') = Some [?ts]"
    by code_simp
  let ?md = "[(''time_start'', PStr []), (''beginning_date_time'', PStr ''2025-01-01T12:00:00Z''),
         (''ending_date_time'', PStr ''2025-01-01T12:00:00Z'')]"
  have rz: "str_replace ''Z'' ''+00:00'' ''2025-01-01T12:00:00Z'' = ''2025-01-01T12:00:00+00:00''"
    by code_simp
  have d: "set_system_time example_lib [] ?md
       = [(KStr ''system:time_start'', ?ts), (KStr ''system:time_end'', ?ts)]"
    using system_time_from_time_start [of ?md ts example_lib "[]" md2 L2 ft row'
        "''2025-01-01T12:00:00Z''" 1735732800000 "''2025-01-01T12:00:00Z''" 1735732800000,
        THEN conjunct2, THEN conjunct2]
    by (simp add: dict_get_default_def rz example_lib_def dict_set_def)
  have f: "set_system_time example_lib [] [(''beginning_date_time'', PStr ''yesterday'')]
       = time_from_dates example_lib [] [(''beginning_date_time'', PStr ''yesterday'')]"
    using system_time_from_time_start [of "[(''beginning_date_time'', PStr ''yesterday'')]"
        ts example_lib "[]" md2 L2 ft row' b begin_ms e end_ms,
        THEN conjunct2, THEN conjunct1]
    by (simp add: dict_get_default_def)
  show ?thesis
    using a s i u r p d f by simp
qed

lemma update_row_band_type:
  assumes u: "update_row_with_metadata L row md ft = Inr row'"
  shows "\<exists>r. map_of r (KStr ''band_type'') = Some (PStr ft) \<and> row' = transfer_metadata r md"
proof -
  from u obtain r where
    e: "set_epsg L (dict_set (KStr ''band_type'') (PStr ft) (set_system_time L row md)) md
          = Inr r"
    and r: "row' = transfer_metadata r md"
    by (auto simp: update_row_with_metadata_def Let_def bind_err_def split: sum.splits)
  have "map_of r (KStr ''band_type'') =
      map_of (dict_set (KStr ''band_type'') (PStr ft) (set_system_time L row md))
        (KStr ''band_type'')"
    by (rule set_epsg_other [OF e]) simp
  then have "map_of r (KStr ''band_type'') = Some (PStr ft)" by simp
  with r show ?thesis by (intro exI [of _ r]) simp
qed

lemma update_row_band_type_final:
  assumes u: "update_row_with_metadata L row md ft = Inr row'"
    and md: "list_all (\<lambda>(k, v). k = ''band_type'' \<longrightarrow> v = PNone) md"
  shows "map_of row' (KStr ''band_type'') = Some (PStr ft)"
proof -
  from update_row_band_type [OF u] obtain r where
    r: "map_of r (KStr ''band_type'') = Some (PStr ft)" and row': "row' = transfer_metadata r md"
    by auto
  have "list_all (\<lambda>(k, v). KStr k = KStr ''band_type'' \<longrightarrow> v = PNone) md"
    using md by simp
  from transfer_metadata_other [OF this] r row' show ?thesis by simp
qed

text \<open>
  C10. Whenever \<open>_update_row_with_metadata\<close> returns, the row it merges the metadata
  into has the record's file-type tag as \<open>band_type\<close>, whatever the row held before; when
  the metadata has no \<open>band_type\<close> entry, or maps it to \<open>None\<close>, the returned row has the
  tag as \<open>band_type\<close>. Over a list of download records, the rows that the last record
  matches end with that record's tag and the other rows are as the records before it
  left them.
\<close>

theorem band_type_overwritten:
  "(update_row_with_metadata L row md ft = Inr row' \<longrightarrow>
      (\<exists>r. map_of r (KStr ''band_type'') = Some (PStr ft) \<and> row' = transfer_metadata r md))
   \<and> (update_row_with_metadata L row md ft = Inr row'
        \<and> list_all (\<lambda>(k, v). k = ''band_type'' \<longrightarrow> v = PNone) md \<longrightarrow>
       map_of row' (KStr ''band_type'') = Some (PStr ft))
   \<and> (populate_from_downloaded_files L rows (files @ [rec]) = Inr rows'
        \<and> list_all (\<lambda>(k, v). k = ''band_type'' \<longrightarrow> v = PNone) (granule_metadata rec) \<longrightarrow>
       (\<exists>mid. populate_from_downloaded_files L rows files = Inr mid
          \<and> list_all2 (\<lambda>r r'. if row_matches r (filename rec) = Inr True
                               then map_of r' (KStr ''band_type'') = Some (PStr (file_type rec))
                               else r' = r) mid rows'))"
proof (intro conjI impI)
  assume "update_row_with_metadata L row md ft = Inr row'"
  then show "\<exists>r. map_of r (KStr ''band_type'') = Some (PStr ft) \<and> row' = transfer_metadata r md"
    by (rule update_row_band_type)
next
  assume "update_row_with_metadata L row md ft = Inr row'
        \<and> list_all (\<lambda>(k, v). k = ''band_type'' \<longrightarrow> v = PNone) md"
  then show "map_of row' (KStr ''band_type'') = Some (PStr ft)"
    by (auto intro: update_row_band_type_final)
next
  assume a: "populate_from_downloaded_files L rows (files @ [rec]) = Inr rows'
        \<and> list_all (\<lambda>(k, v). k = ''band_type'' \<longrightarrow> v = PNone) (granule_metadata rec)"
  then have run: "bind_err (fold_err (update_matching_rows L) files rows)
        (fold_err (update_matching_rows L) [rec]) = Inr rows'"
    and md: "list_all (\<lambda>(k, v). k = ''band_type'' \<longrightarrow> v = PNone) (granule_metadata rec)"
    by (simp_all add: populate_from_downloaded_files_def fold_err_append)
  from run obtain mid where
    m: "fold_err (update_matching_rows L) files rows = Inr mid"
    and l: "fold_err (update_matching_rows L) [rec] mid = Inr rows'"
    by (cases "fold_err (update_matching_rows L) files rows") simp_all
  from l have l': "update_matching_rows L rec mid = Inr rows'"
    by (cases "update_matching_rows L rec mid") simp_all
  have "list_all2 (\<lambda>r r'. if row_matches r (filename rec) = Inr True
                               then map_of r' (KStr ''band_type'') = Some (PStr (file_type rec))
                               else r' = r) mid rows'"
  proof (rule map_err_all2 [OF l' [unfolded update_matching_rows_def]])
    fix x y
    assume s: "bind_err (row_matches x (filename rec))
            (\<lambda>hit. if hit
                 then update_row_with_metadata L x (granule_metadata rec) (file_type rec)
                 else Inr x) = Inr y"
    show "if row_matches x (filename rec) = Inr True
          then map_of y (KStr ''band_type'') = Some (PStr (file_type rec))
          else y = x"
    proof (cases "row_matches x (filename rec)")
      case (Inl e)
      with s show ?thesis by simp
    next
      case (Inr hit)
      show ?thesis
      proof (cases hit)
        case True
        with s Inr
        have "update_row_with_metadata L x (granule_metadata rec) (file_type rec) = Inr y"
          by simp
        from update_row_band_type_final [OF this md] Inr True show ?thesis by simp
      next
        case False
        with s Inr show ?thesis by simp
      qed
    qed
  qed
  with m show "\<exists>mid. populate_from_downloaded_files L rows files = Inr mid
          \<and> list_all2 (\<lambda>r r'. if row_matches r (filename rec) = Inr True
                               then map_of r' (KStr ''band_type'') = Some (PStr (file_type rec))
                               else r' = r) mid rows'"
    by (intro exI [of _ mid]) (simp add: populate_from_downloaded_files_def)
qed

theorem band_type_overwritten_witness:
  "update_row_with_metadata example_lib
       [(KStr ''id_no'', PStr ''ABC''), (KStr ''band_type'', PStr ''cloud'')]
       (granule_metadata qc_record) ''QC''
     = Inr [(KStr ''id_no'', PStr ''ABC''), (KStr ''band_type'', PStr ''QC''),
            (KStr ''system:time_start'', PInt 1735732800000),
            (KStr ''system:time_end'', PInt 1735732800000)]
   \<and> list_all (\<lambda>(k, v). k = ''band_type'' \<longrightarrow> v = PNone) (granule_metadata qc_record)
   \<and> populate_from_downloaded_files example_lib
       [[(KStr ''id_no'', PStr ''ABC''), (KStr ''band_type'', PStr ''cloud'')],
        [(KStr ''id_no'', PStr ''DEF''), (KStr ''band_type'', PStr ''cloud'')]]
       ([timed_record] @ [qc_record])
     = Inr [[(KStr ''id_no'', PStr ''ABC''), (KStr ''band_type'', PStr ''QC''),
             (KStr ''system:time_start'', PInt 1735732800000),
             (KStr ''system:time_end'', PInt 1735732800000)],
            [(KStr ''id_no'', PStr ''DEF''), (KStr ''band_type'', PStr ''cloud'')]]
   \<and> (\<exists>mid. populate_from_downloaded_files example_lib
         [[(KStr ''id_no'', PStr ''ABC''), (KStr ''band_type'', PStr ''cloud'')],
          [(KStr ''id_no'', PStr ''DEF''), (KStr ''band_type'', PStr ''cloud'')]]
         [timed_record] = Inr mid
        \<and> list_all2 (\<lambda>r r'. if row_matches r (filename qc_record) = Inr True
                             then map_of r' (KStr ''band_type'')
                                    = Some (PStr (file_type qc_record))
                             else r' = r) mid
            [[(KStr ''id_no'', PStr ''ABC''), (KStr ''band_type'', PStr ''QC''),
              (KStr ''system:time_start'', PInt 1735732800000),
              (KStr ''system:time_end'', PInt 1735732800000)],
             [(KStr ''id_no'', PStr ''DEF''), (KStr ''band_type'', PStr ''cloud'')]])
   \<and> map_of [(KStr ''id_no'', PStr ''ABC''), (KStr ''band_type'', PStr ''QC''),
              (KStr ''system:time_start'', PInt 1735732800000),
              (KStr ''system:time_end'', PInt 1735732800000)] (KStr ''band_type'')
       = Some (PStr ''QC'')"
proof -
  let ?row = "[(KStr ''id_no'', PStr ''ABC''), (KStr ''band_type'', PStr ''cloud'')]"
  let ?other = "[(KStr ''id_no'', PStr ''DEF''), (KStr ''band_type'', PStr ''cloud'')]"
  let ?row' = "[(KStr ''id_no'', PStr ''ABC''), (KStr ''band_type'', PStr ''QC''),
            (KStr ''system:time_start'', PInt 1735732800000),
            (KStr ''system:time_end'', PInt 1735732800000)]"
  have u: "update_row_with_metadata example_lib ?row (granule_metadata qc_record) ''QC''
      = Inr ?row'"
    by code_simp
  have n: "list_all (\<lambda>(k, v). k = ''band_type'' \<longrightarrow> v = PNone) (granule_metadata qc_record)"
    by (simp add: qc_record_def timed_record_def)
  have p: "populate_from_downloaded_files example_lib [?row, ?other]
      ([timed_record] @ [qc_record]) = Inr [?row', ?other]"
    by code_simp
  note t = band_type_overwritten [of example_lib ?row "granule_metadata qc_record" "''QC''"
      ?row' "[?row, ?other]" "[timed_record]" qc_record "[?row', ?other]"]
  note t2 = t [THEN conjunct2, THEN conjunct1, THEN mp, OF conjI [OF u n]]
  note t3 = t [THEN conjunct2, THEN conjunct2, THEN mp, OF conjI [OF p n]]
  show ?thesis
    using u n p t2 t3 by simp
qed

text \<open>
  Two files of one granule, \<open>ABC_LST.tif\<close> and \<open>ABC_QC.tif\<close>, match the row \<open>ABC\<close>; the
  metadata has no \<open>band_type\<close> entry. The persisted row has the tag of the second record,
  not \<open>LST\<close>, the tag of the first.
\<close>

theorem band_type_last_record_counterexample:
  "map_of (granule_metadata timed_record) ''band_type'' = None
   \<and> file_type timed_record = ''LST''
   \<and> str_contains ''ABC'' (filename timed_record)
   \<and> read_rows example_env ''meta.csv'' = Inr [[(KStr ''id_no'', PStr ''ABC'')]]
   \<and> fst (enhance_metadata_csv example_lib example_env ''meta.csv'' []
            (Some [timed_record, qc_record]))
   \<and> persisted_column
        (snd (enhance_metadata_csv example_lib example_env ''meta.csv'' []
                (Some [timed_record, qc_record])))
        (KStr ''band_type'') = Some [PStr ''QC'']"
proof -
  have a: "map_of (granule_metadata timed_record) ''band_type'' = None"
    and b: "file_type timed_record = ''LST''"
    by (simp_all add: timed_record_def)
  have c: "str_contains ''ABC'' (filename timed_record)"
    by code_simp
  have d: "read_rows example_env ''meta.csv'' = Inr [[(KStr ''id_no'', PStr ''ABC'')]]"
    by (simp add: example_env_def)
  have e: "fst (enhance_metadata_csv example_lib example_env ''meta.csv'' []
            (Some [timed_record, qc_record]))"
    by code_simp
  have f: "persisted_column
        (snd (enhance_metadata_csv example_lib example_env ''meta.csv'' []
                (Some [timed_record, qc_record])))
        (KStr ''band_type'') = Some [PStr ''QC'']"
    by code_simp
  show ?thesis using a b c d e f by simp
qed

end
